theory Spec2Isabelle
  imports Complex_Main
begin

section \<open>Georeferenced rasters: \<open>aeronet/dataset/raster/band.py\<close>\<close>

text \<open>
  The module has two classes. \<open>Band\<close> wraps an open raster file, \<open>BandSample\<close> wraps a
  pixel array held in memory. Both carry a coordinate reference system, an affine
  transform from pixel to world coordinates and a nodata value.

  Conventions of the embedding:
  \<^item> Python \<open>int\<close> is \<open>int\<close>; Python \<open>float\<close> is \<open>real\<close>. The arithmetic on transform
    coefficients is exact, except in \<open>BandSample.bounds\<close>, where the order of the edges
    depends on the rounding of binary64: there every product and sum is rounded by
    \<open>round64\<close>.
  \<^item> An exception is the \<open>Inl\<close> branch of a result \<open>error + 'a\<close>.
  \<^item> The file system and the calls into the raster codec and the warp engine are an
    explicit \<open>world\<close>: the raster files that exist, and the trace of effects in the
    order they happened.
  \<^item> Code that \<open>band.py\<close> only imports and whose result is not determined by the call
    (the shape guard, the temporary-name generator, the UTM-zone helper, the CRS parser,
    the default-transform computation, the warp engine, the failure of a file creation)
    is the record \<open>env\<close> of parameters: the operations take it and none fixes what it
    does.
  \<^item> The Python built-ins, \<open>os.path\<close>, numpy slicing and the read-only side of a rasterio
    handle (\<open>res\<close>, \<open>bounds\<close>, the boundless \<open>read\<close>) are definitions that follow the
    documented behaviour of these libraries.
\<close>

subsection \<open>Errors, CRS, affine transforms, bounding boxes\<close>

datatype error =
    CRSError
  | ShapeError
  | IOError
  | FileNotFoundError
  | ZeroDivisionError
  | ValueError
  | IndexError
  | AttributeError

text \<open>
  A CRS is an opaque value with an equality and a validity flag (\<open>CRS.is_valid\<close>).
\<close>

datatype crs = CRS (crs_text: string) (is_valid: bool)

text \<open>
  What a caller may pass where a CRS is expected: a \<open>CRS\<close> object, or user input that
  \<open>CRS.from_user_input\<close> has to parse (a string here; the literal \<open>'utm'\<close> is one).
\<close>

datatype crs_arg = CrsObj crs | UserInput string

text \<open>
  \<open>Affine(a, b, c, d, e, f)\<close>: \<open>x = c + col * a + row * b\<close>, \<open>y = f + col * d + row * e\<close>.
  The selectors are the attributes \<open>.a\<close> ... \<open>.f\<close> of the source.
\<close>

datatype affine =
  Affine (aff_a: real) (aff_b: real) (aff_c: real) (aff_d: real) (aff_e: real) (aff_f: real)

subsection \<open>Python built-ins\<close>

text \<open>
  \<open>round(x)\<close> of a float, with one argument: the nearest integer, a tie going to the
  even neighbour.
\<close>

definition py_round :: "real \<Rightarrow> int" where
  "py_round x =
     (let fl = \<lfloor>x\<rfloor>; fr = x - of_int fl
      in if fr < 1 / 2 then fl
         else if 1 / 2 < fr then fl + 1
         else if even fl then fl else fl + 1)"

text \<open>
  A Python \<open>float\<close> is an IEEE 754 binary64 number: a significand of 53 bits and an
  exponent from \<open>-1022\<close> to \<open>1023\<close>. The exponent of a real \<open>x\<close> is \<open>\<lfloor>log\<^sub>2 \<bar>x\<bar>\<rfloor>\<close>, and
  \<open>-1022\<close> for the subnormal numbers below \<open>2^(-1022)\<close>; the doubles of that exponent are
  the multiples of \<open>ulp x\<close>, and \<open>round64 x\<close> is the nearest of them, a tie going to the
  even significand (the default rounding mode). \<open>max64\<close> is the largest double, and
  \<open>binary64 x\<close> says that the real \<open>x\<close> is a double.
\<close>

definition float_exponent :: "real \<Rightarrow> int" where
  "float_exponent x = max \<lfloor>log 2 \<bar>x\<bar>\<rfloor> (- 1022)"

definition ulp :: "real \<Rightarrow> real" where
  "ulp x = 2 powr (of_int (float_exponent x) - 52)"

definition round64 :: "real \<Rightarrow> real" where
  "round64 x = (if x = 0 then 0 else ulp x * of_int (py_round (x / ulp x)))"

definition max64 :: real where
  "max64 = (2 ^ 53 - 1) * 2 ^ 971"

definition binary64 :: "real \<Rightarrow> bool" where
  "binary64 x = (round64 x = x \<and> \<bar>x\<bar> \<le> max64)"

text \<open>
  What a product or a sum of finite floats is: a finite double, or an infinity when the
  rounded result passes the largest double. \<open>to_float64 x\<close> is the float that an operation
  of exact result \<open>x\<close> returns.
\<close>

datatype float64 = Finite real | PosInf | NegInf

definition to_float64 :: "real \<Rightarrow> float64" where
  "to_float64 x =
     (let r = round64 x
      in if max64 < r then PosInf
         else if r < - max64 then NegInf
         else Finite r)"

text \<open>
  \<open>x * y\<close> of two finite floats; \<open>x + y\<close> of a finite float and a float; \<open>x <= y\<close> on
  floats; and the conversion \<open>float(n)\<close> that the \<open>int\<close> operand of a mixed product goes
  through. The \<open>int\<close>s converted here are dimensions of an array, which are below \<open>2^63\<close>,
  so the conversion does not overflow.
\<close>

definition float_mul :: "real \<Rightarrow> real \<Rightarrow> float64" where
  "float_mul x y = to_float64 (x * y)"

definition float_add :: "real \<Rightarrow> float64 \<Rightarrow> float64" where
  "float_add x y =
     (case y of
        Finite v \<Rightarrow> to_float64 (x + v)
      | PosInf \<Rightarrow> PosInf
      | NegInf \<Rightarrow> NegInf)"

fun float_le :: "float64 \<Rightarrow> float64 \<Rightarrow> bool" where
  "float_le NegInf y = True"
| "float_le x PosInf = True"
| "float_le (Finite u) (Finite v) = (u \<le> v)"
| "float_le x y = False"

definition float_of_int :: "int \<Rightarrow> real" where
  "float_of_int n = round64 (of_int n)"

text \<open>
  \<open>BoundingBox(left, bottom, right, top)\<close> of \<open>rasterio.coords\<close>: four floats.
\<close>

datatype BoundingBox =
  BoundingBox (bb_left: float64) (bb_bottom: float64) (bb_right: float64) (bb_top: float64)

text \<open>\<open>int(x)\<close> of a float: truncation towards zero.\<close>

definition py_int :: "real \<Rightarrow> int" where
  "py_int x = (if 0 \<le> x then \<lfloor>x\<rfloor> else \<lceil>x\<rceil>)"

text \<open>\<open>x / y\<close> on numbers: true division, \<open>ZeroDivisionError\<close> when the divisor is zero.\<close>

definition py_truediv :: "real \<Rightarrow> real \<Rightarrow> error + real" where
  "py_truediv x y = (if y = 0 then Inl ZeroDivisionError else Inr (x / y))"

text \<open>
  \<open>range(start, stop, step)\<close> as the list it runs through; a zero step raises
  \<open>ValueError\<close>.
\<close>

definition range_len :: "int \<Rightarrow> int \<Rightarrow> int \<Rightarrow> nat" where
  "range_len start stop step =
     (if 0 < step then nat ((stop - start + step - 1) div step)
      else nat ((start - stop - step - 1) div (- step)))"

definition py_range :: "int \<Rightarrow> int \<Rightarrow> int \<Rightarrow> error + int list" where
  "py_range start stop step =
     (if step = 0 then Inl ValueError
      else Inr (map (\<lambda>k. start + int k * step) [0 ..< range_len start stop step]))"

text \<open>
  The bounds of the slice \<open>[start:stop]\<close> on an axis of length \<open>n\<close> (step 1): a negative
  index counts from the end, and both ends are clipped to the axis.
\<close>

definition slice_index :: "int \<Rightarrow> int \<Rightarrow> int" where
  "slice_index n i = (if i < 0 then max (n + i) 0 else min i n)"

definition slice_start :: "nat \<Rightarrow> int \<Rightarrow> nat" where
  "slice_start n start = nat (slice_index (int n) start)"

definition slice_len :: "nat \<Rightarrow> int \<Rightarrow> int \<Rightarrow> nat" where
  "slice_len n start stop =
     nat (slice_index (int n) stop - slice_index (int n) start)"

text \<open>\<open>os.path.basename\<close>, \<open>os.path.dirname\<close> (POSIX) and \<open>s.split('.')[0]\<close>.\<close>

definition basename :: "string \<Rightarrow> string" where
  "basename p = rev (takeWhile (\<lambda>ch. ch \<noteq> CHR ''/'') (rev p))"

definition dirname :: "string \<Rightarrow> string" where
  "dirname p =
     (let head = rev (dropWhile (\<lambda>ch. ch \<noteq> CHR ''/'') (rev p))
      in if \<forall>ch \<in> set head. ch = CHR ''/'' then head
         else rev (dropWhile (\<lambda>ch. ch = CHR ''/'') (rev head)))"

definition before_dot :: "string \<Rightarrow> string" where
  "before_dot s = takeWhile (\<lambda>ch. ch \<noteq> CHR ''.'') s"

subsection \<open>Arrays\<close>

text \<open>
  A numpy array: its shape, its dtype and the cell at each index. The cells outside the
  shape are never read by the operations below.
\<close>

record ndarray =
  shape :: "nat list"
  dtype :: string
  cell :: "nat list \<Rightarrow> real"

text \<open>\<open>arr.shape[i]\<close>: \<open>IndexError\<close> past the rank.\<close>

definition shape_at :: "ndarray \<Rightarrow> nat \<Rightarrow> error + int" where
  "shape_at arr i =
     (if i < length (shape arr) then Inr (int (shape arr ! i)) else Inl IndexError)"

text \<open>
  \<open>arr[y0:y1, x0:x1]\<close>: basic slicing of the two leading axes; an array of rank below
  two has too many indices.
\<close>

definition getitem2 :: "ndarray \<Rightarrow> int \<times> int \<Rightarrow> int \<times> int \<Rightarrow> error + ndarray" where
  "getitem2 arr ys xs =
     (case shape arr of
        n0 # n1 # rest \<Rightarrow>
          Inr \<lparr>shape = slice_len n0 (fst ys) (snd ys) # slice_len n1 (fst xs) (snd xs) # rest,
               dtype = dtype arr,
               cell = (\<lambda>idx. case idx of
                          i # j # ks \<Rightarrow>
                            cell arr ((slice_start n0 (fst ys) + i)
                                      # (slice_start n1 (fst xs) + j) # ks)
                        | _ \<Rightarrow> cell arr idx)\<rparr>
      | _ \<Rightarrow> Inl IndexError)"

text \<open>
  \<open>np.empty(shape=(1, h, w), dtype=t)\<close>: a negative dimension raises \<open>ValueError\<close>. The
  cells of the new array are not initialised; they stand as 0 until the warp writes them.
\<close>

definition np_empty :: "int \<Rightarrow> int \<Rightarrow> string \<Rightarrow> error + ndarray" where
  "np_empty h w t =
     (if h < 0 \<or> w < 0 then Inl ValueError
      else Inr \<lparr>shape = [1, nat h, nat w], dtype = t, cell = (\<lambda>idx. 0)\<rparr>)"

text \<open>\<open>t[i]\<close> on a tuple of integers.\<close>

definition tuple_at :: "int list \<Rightarrow> nat \<Rightarrow> error + int" where
  "tuple_at t i = (if i < length t then Inr (t ! i) else Inl IndexError)"

subsection \<open>Raster files and the world\<close>

text \<open>
  What the codec knows of a raster file: the metadata that \<open>meta\<close> carries and the
  pixels of each band, addressed by band, row and column.
\<close>

record dataset =
  ds_crs :: crs
  ds_transform :: affine
  ds_nodata :: "real option"
  ds_width :: int
  ds_height :: int
  ds_count :: nat
  ds_dtype :: string
  ds_pixels :: "nat \<Rightarrow> int \<Rightarrow> int \<Rightarrow> real"

text \<open>
  \<open>DatasetReader.res\<close> and \<open>DatasetReader.bounds\<close> of rasterio, which the handle derives
  from the transform and the size.
\<close>

definition rasterio_res :: "affine \<Rightarrow> real \<times> real" where
  "rasterio_res t =
     (if aff_b t = 0 \<and> aff_d t = 0 then (aff_a t, - aff_e t)
      else (sqrt (aff_a t * aff_a t + aff_d t * aff_d t),
            sqrt (aff_b t * aff_b t + aff_e t * aff_e t)))"

definition rasterio_bounds :: "affine \<Rightarrow> int \<Rightarrow> int \<Rightarrow> BoundingBox" where
  "rasterio_bounds t w h =
     (if aff_b t = 0 \<and> aff_d t = 0
      then BoundingBox (Finite (aff_c t)) (Finite (aff_f t + aff_e t * of_int h))
                       (Finite (aff_c t + aff_a t * of_int w)) (Finite (aff_f t))
      else (let xs = [aff_c t,
                      aff_c t + aff_b t * of_int h,
                      aff_c t + aff_a t * of_int w + aff_b t * of_int h,
                      aff_c t + aff_a t * of_int w];
                ys = [aff_f t,
                      aff_f t + aff_e t * of_int h,
                      aff_f t + aff_d t * of_int w + aff_e t * of_int h,
                      aff_f t + aff_d t * of_int w]
            in BoundingBox (Finite (Min (set xs))) (Finite (Min (set ys)))
                           (Finite (Max (set xs))) (Finite (Max (set ys)))))"

text \<open>
  \<open>DatasetReader.read(window=((r0, r1), (c0, c1)), boundless=True, fill_value=v)\<close>: an
  array of shape \<open>(count, r1 - r0, c1 - c0)\<close>; a cell of the window that lies on the raster
  is the raster's pixel, any other cell is \<open>v\<close>. An axis of negative extent has no
  cells: the array is empty along it.
\<close>

definition read_boundless ::
  "dataset \<Rightarrow> (int \<times> int) \<times> (int \<times> int) \<Rightarrow> real \<Rightarrow> ndarray" where
  "read_boundless ds window fill_value =
     (let r0 = fst (fst window); r1 = snd (fst window);
          c0 = fst (snd window); c1 = snd (snd window)
      in \<lparr>shape = [ds_count ds, nat (r1 - r0), nat (c1 - c0)],
          dtype = ds_dtype ds,
          cell = (\<lambda>idx. case idx of
                     [k, i, j] \<Rightarrow>
                       (let row = r0 + int i; col = c0 + int j
                        in if 0 \<le> row \<and> row < ds_height ds
                              \<and> 0 \<le> col \<and> col < ds_width ds
                           then ds_pixels ds k row col
                           else fill_value)
                   | _ \<Rightarrow> fill_value)\<rparr>)"

text \<open>
  The effects a call leaves behind, in order, and the raster files that exist.
\<close>

datatype event =
    Open string
  | Close string
  | Remove string
  | Makedirs string
  | Create string
  | Warp

record world =
  files :: "string \<rightharpoonup> dataset"
  trace :: "event list"

definition log_event :: "event \<Rightarrow> world \<Rightarrow> world" where
  "log_event ev wld = wld\<lparr>trace := trace wld @ [ev]\<rparr>"

text \<open>
  The collaborators that \<open>band.py\<close> imports and that are not part of it.
  \<^item> \<open>band_shape_guard\<close>, \<open>random_name\<close> (\<open>._utils\<close>) and \<open>get_utm_zone\<close> (\<open>..coords\<close>) are
    code of the repository outside this module;
  \<^item> \<open>from_user_input\<close> is \<open>CRS.from_user_input\<close>;
  \<^item> \<open>calculate_default_transform\<close> is rasterio's;
  \<^item> \<open>warp_array\<close> and \<open>warp_band\<close> are \<open>rasterio.warp.reproject\<close> (with the lookup
    \<open>getattr(Resampling, interpolation)\<close> of its last argument) on an array and on a
    band of a file: they give the cells of the destination, or raise;
  \<^item> \<open>create_ok\<close> tells whether \<open>rasterio.open(fp, 'w', **kwargs)\<close> succeeds.
\<close>

record env =
  band_shape_guard :: "ndarray \<Rightarrow> error + ndarray"
  random_name :: string
  get_utm_zone :: "crs \<Rightarrow> affine \<Rightarrow> int \<times> int \<Rightarrow> error + crs"
  from_user_input :: "string \<Rightarrow> error + crs"
  calculate_default_transform ::
    "crs \<Rightarrow> crs \<Rightarrow> int \<Rightarrow> int \<Rightarrow> BoundingBox \<Rightarrow> error + (affine \<times> int \<times> int)"
  warp_array ::
    "ndarray \<Rightarrow> nat list \<Rightarrow> affine \<Rightarrow> affine \<Rightarrow> crs \<Rightarrow> crs \<Rightarrow> string
       \<Rightarrow> error + (nat list \<Rightarrow> real)"
  warp_band ::
    "dataset \<Rightarrow> dataset \<Rightarrow> string \<Rightarrow> error + (nat \<Rightarrow> int \<Rightarrow> int \<Rightarrow> real)"
  create_ok :: "string \<Rightarrow> dataset \<Rightarrow> bool"

subsection \<open>\<open>BandSample\<close>\<close>

record BandSample =
  s_name :: string
  s_raster :: ndarray
  s_nodata :: real
  s_transform :: affine
  s_crs :: crs

text \<open>
  \<open>BandSample.__init__\<close>: the guard on the array first, then the CRS (parsed when it is
  not a \<open>CRS\<close> already), then the validity check. The transform is taken as an \<open>Affine\<close>;
  \<open>Affine(*transform)\<close> of a 6-tuple is the same six numbers.
\<close>

definition BandSample_init ::
  "env \<Rightarrow> string \<Rightarrow> ndarray \<Rightarrow> crs_arg \<Rightarrow> affine \<Rightarrow> real \<Rightarrow> error + BandSample" where
  "BandSample_init ev name raster crs_in transform nodata =
     (case band_shape_guard ev raster of
        Inl err \<Rightarrow> Inl err
      | Inr guarded \<Rightarrow>
          (case (case crs_in of
                   CrsObj c \<Rightarrow> Inr c
                 | UserInput u \<Rightarrow> from_user_input ev u) of
             Inl err \<Rightarrow> Inl err
           | Inr c \<Rightarrow>
               if \<not> is_valid c then Inl CRSError
               else Inr \<lparr>s_name = name, s_raster = guarded, s_nodata = nodata,
                         s_transform = transform, s_crs = c\<rparr>))"

definition BandSample_width :: "BandSample \<Rightarrow> error + int" where
  "BandSample_width s = shape_at (s_raster s) 1"

definition BandSample_height :: "BandSample \<Rightarrow> error + int" where
  "BandSample_height s = shape_at (s_raster s) 0"

definition BandSample_res :: "BandSample \<Rightarrow> real \<times> real" where
  "BandSample_res s = (\<bar>aff_a (s_transform s)\<bar>, \<bar>aff_e (s_transform s)\<bar>)"

text \<open>
  \<open>BandSample.bounds\<close>. \<open>transform.a * self.width\<close> is a float times an \<open>int\<close>: the \<open>int\<close> is
  converted, the product is rounded, and so is the sum.
\<close>

definition BandSample_bounds :: "BandSample \<Rightarrow> error + BoundingBox" where
  "BandSample_bounds s =
     (let left = aff_c (s_transform s);
          top = aff_f (s_transform s)
      in case BandSample_width s of
           Inl err \<Rightarrow> Inl err
         | Inr w \<Rightarrow>
             (let right = float_add left (float_mul (aff_a (s_transform s)) (float_of_int w))
              in case BandSample_height s of
                   Inl err \<Rightarrow> Inl err
                 | Inr h \<Rightarrow>
                     (let bottom = float_add top
                                     (float_mul (aff_e (s_transform s)) (float_of_int h))
                      in Inr (BoundingBox (Finite left) bottom right (Finite top)))))"

text \<open>
  \<open>BandSample.same\<close>. \<open>res and (...)\<close> does not evaluate its right operand once \<open>res\<close> is
  false, so the properties are read only when the CRS comparison succeeded.
\<close>

definition BandSample_same :: "BandSample \<Rightarrow> BandSample \<Rightarrow> error + bool" where
  "BandSample_same s other =
     (let res = True;
          res = (res \<and> s_crs s = s_crs other)
      in if \<not> res then Inr res
         else (let res = (s_transform s = s_transform s)
               in if \<not> res then Inr res
                  else (case BandSample_height s of
                          Inl err \<Rightarrow> Inl err
                        | Inr h \<Rightarrow>
                            (let res = (h = h)
                             in if \<not> res then Inr res
                                else (case BandSample_width s of
                                        Inl err \<Rightarrow> Inl err
                                      | Inr w \<Rightarrow> Inr (w = w))))))"

text \<open>\<open>BandSample.sample\<close>: the window's transform and the native slice of the array.\<close>

definition BandSample_sample ::
  "env \<Rightarrow> BandSample \<Rightarrow> int \<Rightarrow> int \<Rightarrow> int \<Rightarrow> int \<Rightarrow> error + BandSample" where
  "BandSample_sample ev s y x height width =
     (let coord_x = aff_c (s_transform s) + of_int x * aff_a (s_transform s);
          coord_y = aff_f (s_transform s) + of_int y * aff_e (s_transform s);
          dst_transform = Affine (aff_a (s_transform s)) (aff_b (s_transform s)) coord_x
                                 (aff_d (s_transform s)) (aff_e (s_transform s)) coord_y
      in case getitem2 (s_raster s) (y, y + height) (x, x + width) of
           Inl err \<Rightarrow> Inl err
         | Inr dst_raster \<Rightarrow>
             BandSample_init ev (s_name s) dst_raster (CrsObj (s_crs s)) dst_transform
               (s_nodata s))"

text \<open>
  How \<open>reproject\<close> resolves its \<open>dst_crs\<close> argument: the string \<open>'utm'\<close> asks
  \<open>get_utm_zone\<close>, a \<open>CRS\<close> is taken as it is, anything else is parsed.
\<close>

definition BandSample_resolve_crs :: "env \<Rightarrow> BandSample \<Rightarrow> crs_arg \<Rightarrow> error + crs" where
  "BandSample_resolve_crs ev s dst_crs =
     (case dst_crs of
        UserInput u \<Rightarrow>
          if u = ''utm''
          then (case BandSample_height s of
                  Inl err \<Rightarrow> Inl err
                | Inr h \<Rightarrow>
                    (case BandSample_width s of
                       Inl err \<Rightarrow> Inl err
                     | Inr w \<Rightarrow> get_utm_zone ev (s_crs s) (s_transform s) (h, w)))
          else from_user_input ev u
      | CrsObj c \<Rightarrow> Inr c)"

text \<open>
  \<open>BandSample.reproject\<close>. The only effect is the call of the warp engine, logged as
  \<open>Warp\<close>.
\<close>

definition BandSample_reproject ::
  "env \<Rightarrow> world \<Rightarrow> BandSample \<Rightarrow> crs_arg \<Rightarrow> string \<Rightarrow> (error + BandSample) \<times> world" where
  "BandSample_reproject ev wld s dst_crs_in interpolation =
     (case BandSample_resolve_crs ev s dst_crs_in of
        Inl err \<Rightarrow> (Inl err, wld)
      | Inr dst_crs \<Rightarrow>
          if \<not> is_valid dst_crs then (Inl CRSError, wld)
          else
            (case BandSample_width s of
               Inl err \<Rightarrow> (Inl err, wld)
             | Inr w \<Rightarrow>
            (case BandSample_height s of
               Inl err \<Rightarrow> (Inl err, wld)
             | Inr h \<Rightarrow>
            (case BandSample_bounds s of
               Inl err \<Rightarrow> (Inl err, wld)
             | Inr bnds \<Rightarrow>
            (case calculate_default_transform ev (s_crs s) dst_crs w h bnds of
               Inl err \<Rightarrow> (Inl err, wld)
             | Inr (dst_transform, dst_width, dst_height) \<Rightarrow>
            (case np_empty dst_height dst_width (dtype (s_raster s)) of
               Inl err \<Rightarrow> (Inl err, wld)
             | Inr new_raster \<Rightarrow>
                 (let wld1 = log_event Warp wld
                  in case warp_array ev (s_raster s) (shape new_raster) (s_transform s)
                            dst_transform (s_crs s) dst_crs interpolation of
                       Inl err \<Rightarrow> (Inl err, wld1)
                     | Inr cells \<Rightarrow>
                         (BandSample_init ev (s_name s) (new_raster\<lparr>cell := cells\<rparr>)
                            (CrsObj dst_crs) dst_transform (s_nodata s),
                          wld1))))))))"

definition BandSample_reproject_to_utm ::
  "env \<Rightarrow> world \<Rightarrow> BandSample \<Rightarrow> string \<Rightarrow> (error + BandSample) \<times> world" where
  "BandSample_reproject_to_utm ev wld s interpolation =
     (case BandSample_height s of
        Inl err \<Rightarrow> (Inl err, wld)
      | Inr h \<Rightarrow>
          (case BandSample_width s of
             Inl err \<Rightarrow> (Inl err, wld)
           | Inr w \<Rightarrow>
               (case get_utm_zone ev (s_crs s) (s_transform s) (h, w) of
                  Inl err \<Rightarrow> (Inl err, wld)
                | Inr dst_crs \<Rightarrow>
                    BandSample_reproject ev wld s (CrsObj dst_crs) interpolation)))"

text \<open>
  The shape that \<open>BandSample.resample\<close> asks for, \<open>(target_height, target_width)\<close>: the
  three branches of the source, in its order.
\<close>

definition resample_target ::
  "BandSample \<Rightarrow> (real \<times> real) option \<Rightarrow> int list option \<Rightarrow> error + (int \<times> int)" where
  "resample_target s dst_res dst_shape =
     (case (dst_res, dst_shape) of
        (Some r, None) \<Rightarrow>
          (case BandSample_height s of
             Inl err \<Rightarrow> Inl err
           | Inr h \<Rightarrow>
          (case py_truediv (of_int h * fst (BandSample_res s)) (fst r) of
             Inl err \<Rightarrow> Inl err
           | Inr qh \<Rightarrow>
          (case BandSample_width s of
             Inl err \<Rightarrow> Inl err
           | Inr w \<Rightarrow>
          (case py_truediv (of_int w * snd (BandSample_res s)) (snd r) of
             Inl err \<Rightarrow> Inl err
           | Inr qw \<Rightarrow> Inr (py_int qh, py_int qw)))))
      | (_, Some sh) \<Rightarrow>
          (case tuple_at sh 1 of
             Inl err \<Rightarrow> Inl err
           | Inr th \<Rightarrow>
               (case tuple_at sh 2 of
                  Inl err \<Rightarrow> Inl err
                | Inr tw \<Rightarrow> Inr (th, tw)))
      | (None, None) \<Rightarrow>
          (case BandSample_height s of
             Inl err \<Rightarrow> Inl err
           | Inr h \<Rightarrow>
               (case BandSample_width s of
                  Inl err \<Rightarrow> Inl err
                | Inr w \<Rightarrow> Inr (h, w))))"

text \<open>\<open>BandSample.resample\<close>; \<open>dst_res\<close> is a pair \<open>(dst_res[0], dst_res[1])\<close>.\<close>

definition BandSample_resample ::
  "env \<Rightarrow> world \<Rightarrow> BandSample \<Rightarrow> (real \<times> real) option \<Rightarrow> int list option \<Rightarrow> string
     \<Rightarrow> (error + BandSample) \<times> world" where
  "BandSample_resample ev wld s dst_res dst_shape interpolation =
     (let transform =
            (case dst_res of
               None \<Rightarrow> s_transform s
             | Some r \<Rightarrow>
                 Affine (snd r) (aff_b (s_transform s)) (aff_c (s_transform s))
                        (aff_d (s_transform s)) (- fst r) (aff_f (s_transform s)))
      in case resample_target s dst_res dst_shape of
           Inl err \<Rightarrow> (Inl err, wld)
         | Inr (target_height, target_width) \<Rightarrow>
             (case np_empty target_height target_width (dtype (s_raster s)) of
                Inl err \<Rightarrow> (Inl err, wld)
              | Inr new_raster \<Rightarrow>
                  (let wld1 = log_event Warp wld
                   in case warp_array ev (s_raster s) (shape new_raster) (s_transform s)
                             transform (s_crs s) (s_crs s) interpolation of
                        Inl err \<Rightarrow> (Inl err, wld1)
                      | Inr cells \<Rightarrow>
                          (BandSample_init ev (s_name s) (new_raster\<lparr>cell := cells\<rparr>)
                             (CrsObj (s_crs s)) transform (s_nodata s),
                           wld1))))"

text \<open>
  A generator is the list of the outcomes of its successive \<open>next\<close> calls: a value per
  \<open>yield\<close>, and an exception ends it.
\<close>

fun until_raise :: "(error + 'a) list \<Rightarrow> (error + 'a) list" where
  "until_raise [] = []"
| "until_raise (Inl err # rest) = [Inl err]"
| "until_raise (Inr v # rest) = Inr v # until_raise rest"

definition BandSample_generate_samples ::
  "env \<Rightarrow> BandSample \<Rightarrow> int \<Rightarrow> int \<Rightarrow> (error + BandSample) list" where
  "BandSample_generate_samples ev s width height =
     until_raise
       (case BandSample_width s of
          Inl err \<Rightarrow> [Inl err]
        | Inr total_w \<Rightarrow>
            (case py_range 0 total_w width of
               Inl err \<Rightarrow> [Inl err]
             | Inr xs \<Rightarrow>
                 concat (map (\<lambda>x.
                   case BandSample_height s of
                     Inl err \<Rightarrow> [Inl err]
                   | Inr total_h \<Rightarrow>
                       (case py_range 0 total_h height of
                          Inl err \<Rightarrow> [Inl err]
                        | Inr ys \<Rightarrow>
                            map (\<lambda>y. BandSample_sample ev s y x height width) ys)) xs)))"

subsection \<open>\<open>Band\<close>\<close>

text \<open>
  A \<open>Band\<close> holds the handle \<open>_band\<close> of an open file (its path, and the dataset as the
  handle sees it) and the flag \<open>_tmp_file\<close>.
\<close>

record Band =
  b_path :: string
  b_data :: dataset
  tmp_file :: bool

definition TMP_DIR :: string where
  "TMP_DIR = ''/tmp/raster''"

text \<open>\<open>Band.__init__\<close>: \<open>rasterio.open(fp)\<close> fails when there is no such raster file.\<close>

definition Band_init :: "world \<Rightarrow> string \<Rightarrow> (error + Band) \<times> world" where
  "Band_init wld fp =
     (case files wld fp of
        None \<Rightarrow> (Inl IOError, wld)
      | Some ds \<Rightarrow>
          (Inr \<lparr>b_path = fp, b_data = ds, tmp_file = False\<rparr>, log_event (Open fp) wld))"

text \<open>
  \<open>Band.__del__\<close>: close, then \<open>os.remove\<close> when the flag is set. \<open>os.remove\<close> of a path
  that does not exist raises, which ends the finaliser with nothing removed.
\<close>

definition Band_del :: "world \<Rightarrow> Band \<Rightarrow> world" where
  "Band_del wld b =
     (let fp = b_path b;
          wld1 = log_event (Close fp) wld
      in if tmp_file b
         then (case files wld1 fp of
                 None \<Rightarrow> wld1
               | Some ds \<Rightarrow> log_event (Remove fp) (wld1\<lparr>files := (files wld1)(fp := None)\<rparr>))
         else wld1)"

definition Band_crs :: "Band \<Rightarrow> crs" where
  "Band_crs b = ds_crs (b_data b)"

definition Band_transform :: "Band \<Rightarrow> affine" where
  "Band_transform b = ds_transform (b_data b)"

definition Band_nodata :: "Band \<Rightarrow> real option" where
  "Band_nodata b = ds_nodata (b_data b)"

definition Band_res :: "Band \<Rightarrow> real \<times> real" where
  "Band_res b = rasterio_res (ds_transform (b_data b))"

definition Band_width :: "Band \<Rightarrow> int" where
  "Band_width b = ds_width (b_data b)"

definition Band_height :: "Band \<Rightarrow> int" where
  "Band_height b = ds_height (b_data b)"

definition Band_count :: "Band \<Rightarrow> nat" where
  "Band_count b = ds_count (b_data b)"

definition Band_name :: "Band \<Rightarrow> string" where
  "Band_name b = before_dot (basename (b_path b))"

definition Band_bounds :: "Band \<Rightarrow> BoundingBox" where
  "Band_bounds b =
     rasterio_bounds (ds_transform (b_data b)) (ds_width (b_data b)) (ds_height (b_data b))"

definition Band_meta :: "Band \<Rightarrow> dataset" where
  "Band_meta b = b_data b"

text \<open>\<open>Band.same\<close> compares with \<open>other\<close>.\<close>

definition Band_same :: "Band \<Rightarrow> Band \<Rightarrow> bool" where
  "Band_same b other =
     ((((True \<and> Band_crs b = Band_crs other)
        \<and> Band_transform b = Band_transform other)
       \<and> Band_height b = Band_height other)
      \<and> Band_width b = Band_width other)"

text \<open>\<open>Band.sample\<close>: the window's transform and a boundless read of the window.\<close>

definition Band_sample ::
  "env \<Rightarrow> Band \<Rightarrow> int \<Rightarrow> int \<Rightarrow> int \<Rightarrow> int \<Rightarrow> error + BandSample" where
  "Band_sample ev b y x height width =
     (let coord_x = aff_c (Band_transform b) + of_int x * aff_a (Band_transform b);
          coord_y = aff_f (Band_transform b) + of_int y * aff_e (Band_transform b);
          dst_crs = Band_crs b;
          dst_name = basename (Band_name b);
          dst_nodata = (case Band_nodata b of Some v \<Rightarrow> v | None \<Rightarrow> 0);
          dst_transform = Affine (aff_a (Band_transform b)) (aff_b (Band_transform b)) coord_x
                                 (aff_d (Band_transform b)) (aff_e (Band_transform b)) coord_y;
          dst_raster = read_boundless (b_data b) ((y, y + height), (x, x + width)) dst_nodata
      in BandSample_init ev dst_name dst_raster (CrsObj dst_crs) dst_transform dst_nodata)"

definition Band_generate_samples ::
  "env \<Rightarrow> Band \<Rightarrow> int \<Rightarrow> int \<Rightarrow> (error + BandSample) list" where
  "Band_generate_samples ev b width height =
     until_raise
       (case py_range 0 (Band_width b) width of
          Inl err \<Rightarrow> [Inl err]
        | Inr xs \<Rightarrow>
            concat (map (\<lambda>x.
              case py_range 0 (Band_height b) height of
                Inl err \<Rightarrow> [Inl err]
              | Inr ys \<Rightarrow> map (\<lambda>y. Band_sample ev b y x height width) ys) xs))"

text \<open>
  The part that \<open>Band.resample\<close> and \<open>Band.reproject\<close> share from \<open>os.makedirs\<close> on:
  the directory, the new file written from \<open>kwargs\<close>, the warp into it, and the new
  \<open>Band\<close> opened on it with its flag set. \<open>os.makedirs('')\<close> raises; a failure inside the
  \<open>with\<close> block leaves the file that was created.
\<close>

definition write_band ::
  "env \<Rightarrow> world \<Rightarrow> Band \<Rightarrow> string \<Rightarrow> dataset \<Rightarrow> string \<Rightarrow> bool \<Rightarrow> (error + Band) \<times> world" where
  "write_band ev wld b fp kwargs interpolation tmp =
     (if \<not> create_ok ev fp kwargs then (Inl IOError, wld)
      else
        (let blank = kwargs\<lparr>ds_pixels := (\<lambda>k row col. 0)\<rparr>;
             wld1 = log_event (Create fp) (wld\<lparr>files := (files wld)(fp \<mapsto> blank)\<rparr>);
             wld2 = log_event Warp wld1
         in case warp_band ev (b_data b) kwargs interpolation of
              Inl err \<Rightarrow> (Inl err, log_event (Close fp) wld2)
            | Inr px \<Rightarrow>
                (let wld3 = log_event (Close fp)
                              (wld2\<lparr>files := (files wld2)(fp \<mapsto> kwargs\<lparr>ds_pixels := px\<rparr>)\<rparr>)
                 in case Band_init wld3 fp of
                      (Inl err, wld4) \<Rightarrow> (Inl err, wld4)
                    | (Inr band, wld4) \<Rightarrow> (Inr (band\<lparr>tmp_file := tmp\<rparr>), wld4))))"

definition makedirs :: "world \<Rightarrow> string \<Rightarrow> error + world" where
  "makedirs wld dir = (if dir = [] then Inl FileNotFoundError else Inr (log_event (Makedirs dir) wld))"

text \<open>\<open>Band.resample\<close>; \<open>dst_res\<close> is a pair, \<open>fp\<close> is \<open>None\<close> or a path.\<close>

definition Band_resample ::
  "env \<Rightarrow> world \<Rightarrow> Band \<Rightarrow> real \<times> real \<Rightarrow> string option \<Rightarrow> string
     \<Rightarrow> (error + Band) \<times> world" where
  "Band_resample ev wld b dst_res fp_in interpolation =
     (let tmp = (if fp_in \<noteq> None then False else True);
          fp = (case fp_in of
                  None \<Rightarrow> TMP_DIR @ ''/resampled/'' @ random_name ev @ ''/'' @ Band_name b @ ''.tif''
                | Some p \<Rightarrow> p)
      in case makedirs wld (dirname fp) of
           Inl err \<Rightarrow> (Inl err, wld)
         | Inr wld1 \<Rightarrow>
             (let transform = Affine (fst dst_res) (aff_b (Band_transform b))
                                     (aff_c (Band_transform b)) (aff_d (Band_transform b))
                                     (- snd dst_res) (aff_f (Band_transform b))
              in case py_truediv (fst dst_res) (fst (Band_res b)) of
                   Inl err \<Rightarrow> (Inl err, wld1)
                 | Inr kx \<Rightarrow>
                (case py_truediv (of_int (Band_width b)) kx of
                   Inl err \<Rightarrow> (Inl err, wld1)
                 | Inr qw \<Rightarrow>
                (case py_truediv (snd dst_res) (snd (Band_res b)) of
                   Inl err \<Rightarrow> (Inl err, wld1)
                 | Inr ky \<Rightarrow>
                (case py_truediv (of_int (Band_height b)) ky of
                   Inl err \<Rightarrow> (Inl err, wld1)
                 | Inr qh \<Rightarrow>
                     (let width = py_round qw;
                          height = py_round qh;
                          kwargs = (Band_meta b)\<lparr>ds_transform := transform,
                                                 ds_width := width, ds_height := height\<rparr>
                      in write_band ev wld1 b fp kwargs interpolation tmp))))))"

definition Band_resolve_crs :: "env \<Rightarrow> Band \<Rightarrow> crs_arg \<Rightarrow> error + crs" where
  "Band_resolve_crs ev b dst_crs =
     (case dst_crs of
        UserInput u \<Rightarrow>
          if u = ''utm''
          then get_utm_zone ev (Band_crs b) (Band_transform b) (Band_height b, Band_width b)
          else from_user_input ev u
      | CrsObj c \<Rightarrow> Inr c)"

text \<open>\<open>Band.reproject\<close>.\<close>

definition Band_reproject ::
  "env \<Rightarrow> world \<Rightarrow> Band \<Rightarrow> crs_arg \<Rightarrow> string option \<Rightarrow> string
     \<Rightarrow> (error + Band) \<times> world" where
  "Band_reproject ev wld b dst_crs_in fp_in interpolation =
     (case Band_resolve_crs ev b dst_crs_in of
        Inl err \<Rightarrow> (Inl err, wld)
      | Inr dst_crs \<Rightarrow>
          if \<not> is_valid dst_crs then (Inl CRSError, wld)
          else
            (let tmp = (if fp_in \<noteq> None then False else True);
                 fp = (case fp_in of
                         None \<Rightarrow> TMP_DIR @ ''/reprojected_'' @ crs_text dst_crs @ ''/''
                                   @ random_name ev @ ''/'' @ Band_name b @ ''.tif''
                       | Some p \<Rightarrow> p)
             in case makedirs wld (dirname fp) of
                  Inl err \<Rightarrow> (Inl err, wld)
                | Inr wld1 \<Rightarrow>
                    (case calculate_default_transform ev (Band_crs b) dst_crs
                            (Band_width b) (Band_height b) (Band_bounds b) of
                       Inl err \<Rightarrow> (Inl err, wld1)
                     | Inr (transform, width, height) \<Rightarrow>
                         (let kwargs = (Band_meta b)\<lparr>ds_crs := dst_crs, ds_transform := transform,
                                                     ds_width := width, ds_height := height\<rparr>
                          in write_band ev wld1 b fp kwargs interpolation tmp))))"

definition Band_reproject_to_utm ::
  "env \<Rightarrow> world \<Rightarrow> Band \<Rightarrow> string option \<Rightarrow> string \<Rightarrow> (error + Band) \<times> world" where
  "Band_reproject_to_utm ev wld b fp_in interpolation =
     (case get_utm_zone ev (Band_crs b) (Band_transform b) (Band_height b, Band_width b) of
        Inl err \<Rightarrow> (Inl err, wld)
      | Inr dst_crs \<Rightarrow> Band_reproject ev wld b (CrsObj dst_crs) fp_in interpolation)"

subsection \<open>Auxiliary notions of the statements\<close>

text \<open>
  The pairs \<open>(x, y)\<close> that the nested loops of \<open>generate_samples\<close> run through for a
  raster of \<open>total_w\<close> by \<open>total_h\<close> pixels and positive steps: \<open>x\<close> outside, \<open>y\<close> inside.
\<close>

definition grid :: "int \<Rightarrow> int \<Rightarrow> int \<Rightarrow> int \<Rightarrow> (int \<times> int) list" where
  "grid total_w total_h width height =
     concat (map (\<lambda>x. map (\<lambda>y. (x, y))
                            (map (\<lambda>k. int k * height) [0 ..< range_len 0 total_h height]))
                 (map (\<lambda>k. int k * width) [0 ..< range_len 0 total_w width]))"

text \<open>The pixel \<open>(i, j)\<close> (column, row) lies in the window of size \<open>w\<close> by \<open>h\<close> at \<open>p\<close>.\<close>

definition in_window :: "int \<Rightarrow> int \<Rightarrow> int \<times> int \<Rightarrow> int \<times> int \<Rightarrow> bool" where
  "in_window w h p ij =
     (fst p \<le> fst ij \<and> fst ij < fst p + w \<and> snd p \<le> snd ij \<and> snd ij < snd p + h)"

text \<open>The window of \<open>h\<close> rows from \<open>y\<close> and \<open>w\<close> columns from \<open>x\<close> lies on a raster of
  \<open>total_h\<close> rows and \<open>total_w\<close> columns.\<close>

definition window_inside :: "int \<Rightarrow> int \<Rightarrow> int \<Rightarrow> int \<Rightarrow> int \<Rightarrow> int \<Rightarrow> bool" where
  "window_inside total_h total_w y x h w =
     (0 \<le> y \<and> y + h \<le> total_h \<and> 0 \<le> x \<and> x + w \<le> total_w)"

subsection \<open>Instances for the examples\<close>

text \<open>
  Modelled from the spec: \<open>band_shape_guard\<close> of \<open>_utils.py\<close> is not part of \<open>band.py\<close>.
  The spec (4.1) has it accept a 2-D \<open>(H, W)\<close> or a 3-D \<open>(1, H, W)\<close> array and reject any
  other rank or leading dimension. The accepted array is handed on as its \<open>(H, W)\<close>
  plane, which is the layout that \<open>height = shape[0]\<close>, \<open>width = shape[1]\<close> and the slice
  \<open>[y:y+height, x:x+width]\<close> of \<open>BandSample\<close> read. It is the instance of the parameter
  \<open>band_shape_guard\<close> in the examples only.
\<close>

definition plane_guard :: "ndarray \<Rightarrow> error + ndarray" where
  "plane_guard arr =
     (case shape arr of
        [h, w] \<Rightarrow> Inr arr
      | [k, h, w] \<Rightarrow>
          if k = 1
          then Inr \<lparr>shape = [h, w], dtype = dtype arr, cell = (\<lambda>idx. cell arr (0 # idx))\<rparr>
          else Inl ShapeError
      | _ \<Rightarrow> Inl ShapeError)"

definition example_env :: env where
  "example_env =
     \<lparr>band_shape_guard = plane_guard,
      random_name = ''Q7ZK2M9XWA'',
      get_utm_zone = (\<lambda>c t sh. Inr (CRS ''EPSG:32637'' True)),
      from_user_input = (\<lambda>u. if u = ''EPSG:4326'' then Inr (CRS ''EPSG:4326'' True)
                               else if u = ''bogus'' then Inr (CRS ''bogus'' False)
                               else Inl CRSError),
      calculate_default_transform = (\<lambda>c1 c2 w h bb. Inr (Affine 1 0 0 0 (- 1) 0, w, h)),
      warp_array = (\<lambda>src sh t1 t2 c1 c2 i. Inr (\<lambda>idx. 0)),
      warp_band = (\<lambda>src dst i. Inr (\<lambda>k row col. 0)),
      create_ok = (\<lambda>fp kw. True)\<rparr>"

definition example_dataset :: dataset where
  "example_dataset =
     \<lparr>ds_crs = CRS ''EPSG:3857'' True,
      ds_transform = Affine 1 0 0 0 (- 1) 0,
      ds_nodata = None,
      ds_width = 100,
      ds_height = 100,
      ds_count = 1,
      ds_dtype = ''uint8'',
      ds_pixels = (\<lambda>k row col. 7)\<rparr>"

definition example_band :: Band where
  "example_band = \<lparr>b_path = ''data/scene.tif'', b_data = example_dataset, tmp_file = False\<rparr>"

definition example_world :: world where
  "example_world = \<lparr>files = [''data/scene.tif'' \<mapsto> example_dataset], trace = [Open ''data/scene.tif'']\<rparr>"

definition example_array :: "nat \<Rightarrow> nat \<Rightarrow> ndarray" where
  "example_array h w = \<lparr>shape = [h, w], dtype = ''uint8'', cell = (\<lambda>idx. 7)\<rparr>"

definition example_sample :: BandSample where
  "example_sample =
     \<lparr>s_name = ''scene'', s_raster = example_array 3 4, s_nodata = 0,
      s_transform = Affine 2 0 10 0 (- 2) 20, s_crs = CRS ''EPSG:3857'' True\<rparr>"

definition other_sample :: BandSample where
  "other_sample =
     \<lparr>s_name = ''other'', s_raster = example_array 5 6, s_nodata = 0,
      s_transform = Affine 1 0 0 0 (- 1) 0, s_crs = CRS ''EPSG:4326'' True\<rparr>"

text \<open>The path that \<open>Band.resample\<close> writes to: the caller's, or a fresh temporary one.\<close>

definition resample_path :: "env \<Rightarrow> Band \<Rightarrow> string option \<Rightarrow> string" where
  "resample_path ev b fp_in =
     (case fp_in of
        None \<Rightarrow> TMP_DIR @ ''/resampled/'' @ random_name ev @ ''/'' @ Band_name b @ ''.tif''
      | Some p \<Rightarrow> p)"

text \<open>The path that \<open>Band.reproject\<close> writes to.\<close>

definition reproject_path :: "env \<Rightarrow> Band \<Rightarrow> crs \<Rightarrow> string option \<Rightarrow> string" where
  "reproject_path ev b dst_crs fp_in =
     (case fp_in of
        None \<Rightarrow> TMP_DIR @ ''/reprojected_'' @ crs_text dst_crs @ ''/''
                  @ random_name ev @ ''/'' @ Band_name b @ ''.tif''
      | Some p \<Rightarrow> p)"

text \<open>A sample of 10 by 10 pixels, each 1 unit wide and 2 units high.\<close>

definition tall_pixel_sample :: BandSample where
  "tall_pixel_sample =
     \<lparr>s_name = ''scene'', s_raster = example_array 10 10, s_nodata = 0,
      s_transform = Affine 1 0 0 0 (- 2) 0, s_crs = CRS ''EPSG:3857'' True\<rparr>"

text \<open>A sample of 10 by 10 pixels whose cell at row \<open>i\<close>, column \<open>j\<close> is \<open>10 * i + j\<close>.\<close>

definition ramp_sample :: BandSample where
  "ramp_sample =
     \<lparr>s_name = ''scene'',
      s_raster = \<lparr>shape = [10, 10], dtype = ''uint8'',
                   cell = (\<lambda>idx. case idx of [i, j] \<Rightarrow> real (10 * i + j) | _ \<Rightarrow> 0)\<rparr>,
      s_nodata = 0,
      s_transform = Affine 1 0 0 0 (- 1) 0, s_crs = CRS ''EPSG:3857'' True\<rparr>"

text \<open>A raster file of the same 10 by 10 pixels, and a \<open>Band\<close> opened on it.\<close>

definition ramp_dataset :: dataset where
  "ramp_dataset =
     \<lparr>ds_crs = CRS ''EPSG:3857'' True,
      ds_transform = Affine 1 0 0 0 (- 1) 0,
      ds_nodata = None,
      ds_width = 10,
      ds_height = 10,
      ds_count = 1,
      ds_dtype = ''uint8'',
      ds_pixels = (\<lambda>k row col. of_int (10 * row + col))\<rparr>"

definition ramp_band :: Band where
  "ramp_band = \<lparr>b_path = ''data/scene.tif'', b_data = ramp_dataset, tmp_file = False\<rparr>"

text \<open>
  A sample of one pixel whose top edge is at the northing 5000000 and whose pixel is
  \<open>2^(-33)\<close> units high; the doubles next to 5000000 are \<open>2^(-30)\<close> apart.
\<close>

definition fine_pixel_sample :: BandSample where
  "fine_pixel_sample =
     \<lparr>s_name = ''scene'', s_raster = example_array 1 1, s_nodata = 0,
      s_transform = Affine 1 0 0 0 (- (1 / 2 ^ 33)) 5000000, s_crs = CRS ''EPSG:3857'' True\<rparr>"

section \<open>Properties\<close>

subsection \<open>Shape of a sample\<close>

lemma shape_props:
  "shape (s_raster s) = hh # ww # rest \<Longrightarrow>
     BandSample_height s = Inr (int hh) \<and> BandSample_width s = Inr (int ww)"
  by (simp add: BandSample_height_def BandSample_width_def shape_at_def)

subsection \<open>Rounding to binary64\<close>

lemma ulp_pos: "0 < ulp x"
  by (simp add: ulp_def)

lemma py_round_close: "\<bar>of_int (py_round x) - x\<bar> \<le> 1 / 2"
proof -
  have "of_int \<lfloor>x\<rfloor> \<le> x" "x < of_int \<lfloor>x\<rfloor> + 1" by linarith+
  then show ?thesis by (auto simp add: py_round_def Let_def)
qed

lemma py_round_of_int: "py_round (of_int n) = n"
  by (simp add: py_round_def)

lemma py_round_mono:
  assumes "x \<le> y"
  shows "py_round x \<le> py_round y"
proof (rule ccontr)
  assume "\<not> py_round x \<le> py_round y"
  then have lt: "py_round y + 1 \<le> py_round x" by simp
  then have "real_of_int (py_round y) + 1 \<le> real_of_int (py_round x)"
    by (metis of_int_1 of_int_add of_int_le_iff)
  moreover have "real_of_int (py_round x) \<le> x + 1 / 2"
    using py_round_close[of x] by linarith
  moreover have "y - 1 / 2 \<le> real_of_int (py_round y)"
    using py_round_close[of y] by linarith
  ultimately have "y \<le> x" by linarith
  with assms have "x = y" by simp
  with lt show False by simp
qed

lemma py_round_le_int: "x \<le> of_int n \<Longrightarrow> py_round x \<le> n"
  using py_round_mono[of x "of_int n"] by (simp add: py_round_of_int)

lemma py_round_ge_int: "of_int n \<le> x \<Longrightarrow> n \<le> py_round x"
  using py_round_mono[of "of_int n" x] by (simp add: py_round_of_int)

lemma py_round_minus: "py_round (- x) = - py_round x"
proof (cases "x = of_int \<lfloor>x\<rfloor>")
  case True
  then obtain n where "x = of_int n" by blast
  then have "py_round (- x) = py_round (of_int (- n))" by simp
  also have "\<dots> = - n" by (rule py_round_of_int)
  finally show ?thesis using \<open>x = of_int n\<close> by (simp add: py_round_of_int)
next
  case False
  have b: "of_int \<lfloor>x\<rfloor> \<le> x" "x < of_int \<lfloor>x\<rfloor> + 1" by linarith+
  with False have s: "of_int \<lfloor>x\<rfloor> < x" by (metis less_le)
  have fm: "\<lfloor>- x\<rfloor> = - \<lfloor>x\<rfloor> - 1"
  proof (rule floor_unique)
    show "of_int (- \<lfloor>x\<rfloor> - 1) \<le> - x" by (simp, linarith)
    show "- x < of_int (- \<lfloor>x\<rfloor> - 1) + 1" using s by simp
  qed
  show ?thesis
    using s b by (auto simp add: py_round_def Let_def fm)
qed

lemma exponent_bounds:
  assumes "x \<noteq> 0"
  shows "2 powr of_int \<lfloor>log 2 \<bar>x\<bar>\<rfloor> \<le> \<bar>x\<bar>" and "\<bar>x\<bar> < 2 powr (of_int \<lfloor>log 2 \<bar>x\<bar>\<rfloor> + 1)"
  using floor_log_eq_powr_iff[of "\<bar>x\<bar>" 2 "\<lfloor>log 2 \<bar>x\<bar>\<rfloor>"] assms by simp_all

lemma float_exponent_eq:
  assumes "x \<noteq> 0" and "2 powr of_int k \<le> \<bar>x\<bar>" and "\<bar>x\<bar> < 2 powr (of_int k + 1)"
    and "- 1022 \<le> k"
  shows "float_exponent x = k"
  using floor_log_eq_powr_iff[of "\<bar>x\<bar>" 2 k] assms by (simp add: float_exponent_def)

lemma float_exponent_minus: "float_exponent (- x) = float_exponent x"
  by (simp add: float_exponent_def)

lemma ulp_minus: "ulp (- x) = ulp x"
  by (simp add: ulp_def float_exponent_minus)

lemma round64_minus: "round64 (- x) = - round64 x"
  by (simp add: round64_def ulp_minus py_round_minus)

lemma round64_nonneg: "0 \<le> x \<Longrightarrow> 0 \<le> round64 x"
  using py_round_ge_int[of 0 "x / ulp x"] ulp_pos[of x]
  by (simp add: round64_def)

lemma round64_nonpos: "x \<le> 0 \<Longrightarrow> round64 x \<le> 0"
  using round64_nonneg[of "- x"] by (simp add: round64_minus)

lemma float_exponent_mono:
  assumes "0 < x" and "x \<le> y"
  shows "float_exponent x \<le> float_exponent y"
proof -
  have "log 2 \<bar>x\<bar> \<le> log 2 \<bar>y\<bar>" using assms by simp
  then have "\<lfloor>log 2 \<bar>x\<bar>\<rfloor> \<le> \<lfloor>log 2 \<bar>y\<bar>\<rfloor>" by (rule floor_mono)
  then show ?thesis by (simp add: float_exponent_def)
qed

lemma round64_upper:
  assumes "0 < x"
  shows "round64 x \<le> 2 powr (of_int (float_exponent x) + 1)"
proof -
  have "x < 2 powr (of_int \<lfloor>log 2 \<bar>x\<bar>\<rfloor> + 1)" using exponent_bounds(2)[of x] assms by simp
  also have "\<dots> \<le> 2 powr (of_int (float_exponent x) + 1)"
    by (simp add: float_exponent_def)
  finally have "x \<le> 2 powr (of_int (float_exponent x) + 1)" by simp
  then have "x / ulp x \<le> 2 powr (of_int (float_exponent x) + 1) / ulp x"
    using ulp_pos[of x] by (simp add: divide_right_mono)
  also have "\<dots> = 2 powr 53" by (simp add: ulp_def powr_diff[symmetric])
  also have "\<dots> = of_int (2 ^ 53)" by simp
  finally have "py_round (x / ulp x) \<le> 2 ^ 53" by (rule py_round_le_int)
  then have "real_of_int (py_round (x / ulp x)) \<le> 2 powr 53" by (simp add: of_int_le_iff[symmetric] del: of_int_le_iff)
  then have "ulp x * real_of_int (py_round (x / ulp x)) \<le> ulp x * 2 powr 53"
    using ulp_pos[of x] by (simp add: mult_left_mono)
  also have "\<dots> = 2 powr (of_int (float_exponent x) + 1)"
    unfolding ulp_def powr_add[symmetric] by (simp add: add.commute)
  finally show ?thesis using assms by (simp add: round64_def)
qed

lemma round64_lower:
  assumes "0 < x" and "- 1022 < float_exponent x"
  shows "2 powr of_int (float_exponent x) \<le> round64 x"
proof -
  from assms(2) have fe: "float_exponent x = \<lfloor>log 2 \<bar>x\<bar>\<rfloor>" by (simp add: float_exponent_def max_def split: if_splits)
  have "2 powr of_int (float_exponent x) \<le> x" using exponent_bounds(1)[of x] assms(1) fe by simp
  then have "2 powr of_int (float_exponent x) / ulp x \<le> x / ulp x"
    using ulp_pos[of x] by (simp add: divide_right_mono)
  moreover have "2 powr of_int (float_exponent x) / ulp x = 2 powr 52"
    by (simp add: ulp_def powr_diff[symmetric])
  moreover have "(2::real) powr 52 = of_int (2 ^ 52)" by simp
  ultimately have "of_int (2 ^ 52) \<le> x / ulp x" by simp
  then have "2 ^ 52 \<le> py_round (x / ulp x)" by (rule py_round_ge_int)
  then have "2 powr 52 \<le> real_of_int (py_round (x / ulp x))" by (simp add: of_int_le_iff[symmetric] del: of_int_le_iff)
  then have "ulp x * 2 powr 52 \<le> ulp x * real_of_int (py_round (x / ulp x))"
    using ulp_pos[of x] by (simp add: mult_left_mono)
  moreover have "ulp x * 2 powr 52 = 2 powr of_int (float_exponent x)"
    unfolding ulp_def powr_add[symmetric] by simp
  ultimately show ?thesis using assms(1) by (simp add: round64_def)
qed

lemma round64_mono_pos:
  assumes "0 < x" and "x \<le> y"
  shows "round64 x \<le> round64 y"
proof (cases "float_exponent x = float_exponent y")
  case True
  then have u: "ulp x = ulp y" by (simp add: ulp_def)
  have "x / ulp y \<le> y / ulp y" using assms(2) ulp_pos[of y] by (simp add: divide_right_mono)
  then have "py_round (x / ulp y) \<le> py_round (y / ulp y)" by (rule py_round_mono)
  then have "ulp y * real_of_int (py_round (x / ulp y)) \<le> ulp y * real_of_int (py_round (y / ulp y))"
    using ulp_pos[of y] by (simp add: mult_left_mono)
  then show ?thesis using assms u by (simp add: round64_def)
next
  case False
  with float_exponent_mono[OF assms] have lt: "float_exponent x < float_exponent y" by simp
  have "- 1022 \<le> float_exponent x" by (simp add: float_exponent_def)
  with lt have low: "- 1022 < float_exponent y" by simp
  have y: "0 < y" using assms by simp
  have "round64 x \<le> 2 powr (of_int (float_exponent x) + 1)" by (rule round64_upper[OF assms(1)])
  also have "\<dots> \<le> 2 powr of_int (float_exponent y)" using lt by simp
  also have "\<dots> \<le> round64 y" by (rule round64_lower[OF y low])
  finally show ?thesis .
qed

lemma round64_mono:
  assumes "x \<le> y"
  shows "round64 x \<le> round64 y"
proof -
  consider "0 < x" | "x \<le> 0" "0 \<le> y" | "y < 0" by linarith
  then show ?thesis
  proof cases
    case 1
    then show ?thesis using assms by (rule round64_mono_pos)
  next
    case 2
    then show ?thesis using round64_nonpos[of x] round64_nonneg[of y] by simp
  next
    case 3
    then have "0 < - y" "- y \<le> - x" using assms by simp_all
    then have "round64 (- y) \<le> round64 (- x)" by (rule round64_mono_pos)
    then show ?thesis by (simp add: round64_minus)
  qed
qed

lemma round64_eval:
  assumes "x \<noteq> 0" and "2 powr of_int k \<le> \<bar>x\<bar>" and "\<bar>x\<bar> < 2 powr (of_int k + 1)"
    and "- 1022 \<le> k"
  shows "round64 x = 2 powr (of_int k - 52) * of_int (py_round (x / 2 powr (of_int k - 52)))"
  using float_exponent_eq[OF assms] assms(1) by (simp add: round64_def ulp_def)


lemma py_round_near:
  assumes "\<bar>x - of_int n\<bar> < 1 / 2"
  shows "py_round x = n"
proof -
  have "\<bar>real_of_int (py_round x) - real_of_int n\<bar> < 1"
    using py_round_close[of x] assms by linarith
  then have "\<bar>real_of_int (py_round x - n)\<bar> < 1" by simp
  then have "\<bar>py_round x - n\<bar> < 1" by linarith
  then show ?thesis by simp
qed

lemma float_exponent_dyadic_le:
  assumes "m \<noteq> 0" and "\<bar>m\<bar> < 2 ^ 53" and "- 1074 \<le> k"
  shows "float_exponent (of_int m * 2 powr of_int k) \<le> k + 52"
proof -
  let ?x = "real_of_int m * 2 powr of_int k"
  have pos: "0 < \<bar>?x\<bar>" using assms(1) by simp
  have "real_of_int \<bar>m\<bar> < 2 ^ 53" using assms(2) by (metis of_int_less_numeral_power_cancel_iff)
  then have "\<bar>?x\<bar> < 2 ^ 53 * 2 powr of_int k" by (simp add: abs_mult)
  also have "\<dots> = 2 powr 53 * 2 powr of_int k" by simp
  also have "\<dots> = 2 powr (53 + of_int k)" by (simp only: powr_add)
  also have "53 + real_of_int k = of_int (k + 52) + 1" by simp
  finally have "\<bar>?x\<bar> < 2 powr (of_int (k + 52) + 1)" .
  then have "log 2 \<bar>?x\<bar> < of_int (k + 52) + 1"
    using pos by (simp add: log_less_iff)
  then have "\<lfloor>log 2 \<bar>?x\<bar>\<rfloor> \<le> k + 52" by linarith
  then show ?thesis using assms(3) by (simp add: float_exponent_def)
qed

lemma round64_dyadic:
  assumes "\<bar>m\<bar> < 2 ^ 53" and "- 1074 \<le> k"
  shows "round64 (of_int m * 2 powr of_int k) = of_int m * 2 powr of_int k"
proof (cases "m = 0")
  case True
  then show ?thesis by (simp add: round64_def)
next
  case False
  let ?x = "real_of_int m * 2 powr of_int k"
  define d where "d = nat (k + 52 - float_exponent ?x)"
  have le: "float_exponent ?x \<le> k + 52"
    by (rule float_exponent_dyadic_le[OF False assms])
  then have d: "int d = k + 52 - float_exponent ?x" by (simp add: d_def)
  have u: "ulp ?x * 2 ^ d = 2 powr of_int k"
  proof -
    have "2 ^ d = (2::real) powr of_int (int d)" by (simp add: powr_realpow)
    then have "ulp ?x * 2 ^ d = 2 powr (of_int (float_exponent ?x) - 52 + of_int (int d))"
      by (simp add: ulp_def powr_add)
    also have "of_int (float_exponent ?x) - 52 + of_int (int d) = (of_int k :: real)"
      by (simp add: d)
    finally show ?thesis .
  qed
  then have "?x = ulp ?x * of_int (m * 2 ^ d)" by simp
  then have q: "?x / ulp ?x = of_int (m * 2 ^ d)" using ulp_pos[of ?x] by (simp add: field_simps)
  have "py_round (?x / ulp ?x) = m * 2 ^ d" unfolding q by (rule py_round_of_int)
  then have "round64 ?x = ulp ?x * of_int (m * 2 ^ d)" using False by (simp add: round64_def)
  also have "\<dots> = ?x" using u by simp
  finally show ?thesis .
qed

lemma round64_of_int:
  assumes "\<bar>n\<bar> < 2 ^ 53"
  shows "round64 (of_int n) = of_int n"
  using round64_dyadic[of n 0] assms by simp

lemma round64_numeral: "numeral n < (2::int) ^ 53 \<Longrightarrow> round64 (numeral n) = numeral n"
  using round64_of_int[of "numeral n"] by simp

lemma round64_neg_numeral: "numeral n < (2::int) ^ 53 \<Longrightarrow> round64 (- numeral n) = - numeral n"
  using round64_of_int[of "- numeral n"] by simp

lemma round64_zero: "round64 0 = 0"
  by (simp add: round64_def)

lemma round64_one: "round64 1 = 1"
  using round64_of_int[of 1] by simp

lemma round64_max64: "round64 max64 = max64"
proof -
  have "max64 = of_int (2 ^ 53 - 1) * 2 powr of_int 971"
    by (simp add: max64_def)
  moreover have "round64 (of_int (2 ^ 53 - 1) * 2 powr of_int 971)
                   = of_int (2 ^ 53 - 1) * 2 powr of_int 971"
    by (rule round64_dyadic) simp_all
  ultimately show ?thesis by simp
qed

lemma binary64_of_int: "\<bar>n\<bar> < 2 ^ 53 \<Longrightarrow> binary64 (of_int n)"
proof -
  assume n: "\<bar>n\<bar> < 2 ^ 53"
  then have "real_of_int \<bar>n\<bar> < 2 ^ 53" by (metis of_int_less_numeral_power_cancel_iff)
  then have "\<bar>real_of_int n\<bar> \<le> max64" by (simp add: max64_def)
  then show ?thesis using round64_of_int[OF n] by (simp add: binary64_def)
qed

lemma binary64_zero: "binary64 0"
  using binary64_of_int[of 0] by simp

lemma to_float64_binary64: "binary64 x \<Longrightarrow> to_float64 x = Finite x"
  by (auto simp add: binary64_def to_float64_def)

lemma to_float64_le:
  assumes "x \<le> y" and "binary64 y"
  shows "float_le (to_float64 x) (Finite y)"
proof -
  have le: "round64 x \<le> y"
    using round64_mono[OF assms(1)] assms(2) by (simp add: binary64_def)
  moreover have "y \<le> max64" using assms(2) unfolding binary64_def by linarith
  ultimately have "\<not> max64 < round64 x" by simp
  then show ?thesis using le by (simp add: to_float64_def Let_def)
qed

lemma to_float64_ge:
  assumes "y \<le> x" and "binary64 y"
  shows "float_le (Finite y) (to_float64 x)"
proof -
  have le: "y \<le> round64 x"
    using round64_mono[OF assms(1)] assms(2) by (simp add: binary64_def)
  moreover have "- max64 \<le> y" using assms(2) unfolding binary64_def by linarith
  ultimately have "\<not> round64 x < - max64" by simp
  then show ?thesis using le by (simp add: to_float64_def Let_def)
qed

lemma float_of_int_nonneg: "0 \<le> n \<Longrightarrow> 0 \<le> float_of_int n"
  by (simp add: float_of_int_def round64_nonneg)

lemma float_mul_nonpos: "x \<le> 0 \<Longrightarrow> 0 \<le> y \<Longrightarrow> float_le (float_mul x y) (Finite 0)"
  unfolding float_mul_def by (rule to_float64_le) (simp_all add: mult_nonpos_nonneg binary64_zero)

lemma float_mul_nonneg: "0 \<le> x \<Longrightarrow> 0 \<le> y \<Longrightarrow> float_le (Finite 0) (float_mul x y)"
  unfolding float_mul_def by (rule to_float64_ge) (simp_all add: binary64_zero)

lemma float_add_nonpos:
  assumes "binary64 x" and "float_le p (Finite 0)"
  shows "float_le (float_add x p) (Finite x)"
proof (cases p)
  case (Finite v)
  then have "x + v \<le> x" using assms(2) by simp
  then show ?thesis using Finite assms(1) by (simp add: float_add_def to_float64_le)
next
  case PosInf
  then show ?thesis using assms(2) by simp
next
  case NegInf
  then show ?thesis by (simp add: float_add_def)
qed

lemma float_add_nonneg:
  assumes "binary64 x" and "float_le (Finite 0) p"
  shows "float_le (Finite x) (float_add x p)"
proof (cases p)
  case (Finite v)
  then have "x \<le> x + v" using assms(2) by simp
  then show ?thesis using Finite assms(1) by (simp add: float_add_def to_float64_ge)
next
  case PosInf
  then show ?thesis by (simp add: float_add_def)
next
  case NegInf
  then show ?thesis using assms(2) by simp
qed

subsection \<open>Bounds\<close>

text \<open>
  C6, as stated: for a positive height and \<open>transform.e < 0\<close> the bottom is strictly below
  the top. The sample of one pixel with \<open>f = 5000000\<close> and \<open>e = -2^(-33)\<close> has a transform
  of doubles; \<open>e * 1\<close> is \<open>e\<close>, and \<open>5000000 + e\<close> lies less than half a spacing of the
  doubles from \<open>5000000\<close>, so the sum is \<open>5000000\<close> again: the bottom of \<open>bounds\<close> is its
  top.
\<close>

theorem BandSample_bounds_not_strict:
  "aff_e (s_transform fine_pixel_sample) < 0
   \<and> binary64 (aff_e (s_transform fine_pixel_sample))
   \<and> binary64 (aff_f (s_transform fine_pixel_sample))
   \<and> BandSample_height fine_pixel_sample = Inr 1
   \<and> BandSample_bounds fine_pixel_sample
       = Inr (BoundingBox (Finite 0) (Finite 5000000) (Finite 1) (Finite 5000000))"
proof -
  have e: "round64 (- (1 / 2 ^ 33)) = - (1 / 2 ^ 33)"
    using round64_dyadic[of "- 1" "- 33"] by (simp add: powr_neg_numeral)
  have "round64 (5000000 - 1 / 2 ^ 33)
        = 2 powr (of_int 22 - 52)
            * of_int (py_round ((5000000 - 1 / 2 ^ 33) / 2 powr (of_int 22 - 52)))"
    by (rule round64_eval) simp_all
  moreover have "py_round ((5000000 - 1 / 2 ^ 33) / 2 powr (of_int 22 - 52)) = 5000000 * 2 ^ 30"
    by (rule py_round_near) (simp add: powr_neg_numeral)
  ultimately have b: "round64 (5000000 - 1 / 2 ^ 33) = 5000000"
    by (simp add: powr_neg_numeral)
  have f: "binary64 5000000" using binary64_of_int[of 5000000] by simp
  have be: "binary64 (- (1 / 2 ^ 33))"
    using e by (simp add: binary64_def max64_def)
  have one: "to_float64 1 = Finite 1"
    using to_float64_binary64[OF binary64_of_int[of 1]] by simp
  have pe: "to_float64 (- (1 / 2 ^ 33)) = Finite (- (1 / 2 ^ 33))"
    by (rule to_float64_binary64[OF be])
  have sb: "to_float64 (5000000 - 1 / 2 ^ 33) = Finite 5000000"
    using b by (simp add: to_float64_def max64_def)
  have bb: "BandSample_bounds fine_pixel_sample
              = Inr (BoundingBox (Finite 0) (Finite 5000000) (Finite 1) (Finite 5000000))"
    using one pe sb
    by (simp add: BandSample_bounds_def BandSample_width_def BandSample_height_def shape_at_def
        fine_pixel_sample_def example_array_def float_add_def float_mul_def float_of_int_def
        round64_one)
  have h: "BandSample_height fine_pixel_sample = Inr 1"
    by (simp add: BandSample_height_def shape_at_def fine_pixel_sample_def example_array_def)
  have t: "s_transform fine_pixel_sample = Affine 1 0 0 0 (- (1 / 2 ^ 33)) 5000000"
    by (simp add: fine_pixel_sample_def)
  show ?thesis using f be bb h by (simp add: t)
qed

text \<open>
  C6, amended. For every \<open>BandSample\<close> (its array with its two axes, \<open>hh\<close> rows and \<open>ww\<close>
  columns; \<open>transform.c\<close> and \<open>transform.f\<close> doubles), \<open>bounds\<close> is the rectangle with
  \<open>left = transform.c\<close>, \<open>top = transform.f\<close>, \<open>right = left + transform.a * width\<close> and
  \<open>bottom = top + transform.e * height\<close>, the products and the sums being those of
  floats. For a positive height and \<open>transform.e < 0\<close> the bottom is not above the top,
  and for a positive width and \<open>transform.a > 0\<close> the left is not right of the right.
\<close>

theorem BandSample_bounds_rectangle:
  assumes sh: "shape (s_raster s) = hh # ww # rest"
    and c: "binary64 (aff_c (s_transform s))"
    and f: "binary64 (aff_f (s_transform s))"
  shows "\<exists>bb. BandSample_bounds s = Inr bb
           \<and> bb_left bb = Finite (aff_c (s_transform s))
           \<and> bb_top bb = Finite (aff_f (s_transform s))
           \<and> bb_right bb
               = float_add (aff_c (s_transform s))
                   (float_mul (aff_a (s_transform s)) (float_of_int (int ww)))
           \<and> bb_bottom bb
               = float_add (aff_f (s_transform s))
                   (float_mul (aff_e (s_transform s)) (float_of_int (int hh)))
           \<and> (0 < hh \<and> aff_e (s_transform s) < 0 \<longrightarrow> float_le (bb_bottom bb) (bb_top bb))
           \<and> (0 < ww \<and> 0 < aff_a (s_transform s) \<longrightarrow> float_le (bb_left bb) (bb_right bb))"
proof -
  let ?t = "s_transform s"
  let ?right = "float_add (aff_c ?t) (float_mul (aff_a ?t) (float_of_int (int ww)))"
  let ?bottom = "float_add (aff_f ?t) (float_mul (aff_e ?t) (float_of_int (int hh)))"
  have bb: "BandSample_bounds s
              = Inr (BoundingBox (Finite (aff_c ?t)) ?bottom ?right (Finite (aff_f ?t)))"
    using shape_props[OF sh] by (simp add: BandSample_bounds_def Let_def)
  have w0: "0 \<le> float_of_int (int ww)" and h0: "0 \<le> float_of_int (int hh)"
    by (simp_all add: float_of_int_nonneg)
  have lo: "aff_e ?t < 0 \<longrightarrow> float_le ?bottom (Finite (aff_f ?t))"
  proof
    assume "aff_e ?t < 0"
    then have "float_le (float_mul (aff_e ?t) (float_of_int (int hh))) (Finite 0)"
      using h0 by (simp add: float_mul_nonpos)
    then show "float_le ?bottom (Finite (aff_f ?t))"
      by (rule float_add_nonpos[OF f])
  qed
  have hi: "0 < aff_a ?t \<longrightarrow> float_le (Finite (aff_c ?t)) ?right"
  proof
    assume "0 < aff_a ?t"
    then have "float_le (Finite 0) (float_mul (aff_a ?t) (float_of_int (int ww)))"
      using w0 by (simp add: float_mul_nonneg)
    then show "float_le (Finite (aff_c ?t)) ?right"
      by (rule float_add_nonneg[OF c])
  qed
  show ?thesis using bb lo hi by simp
qed

theorem BandSample_bounds_rectangle_witness:
  "shape (s_raster example_sample) = [3, 4]
   \<and> binary64 (aff_c (s_transform example_sample))
   \<and> binary64 (aff_f (s_transform example_sample))
   \<and> (\<exists>bb. BandSample_bounds example_sample = Inr bb
          \<and> bb_left bb = Finite 10 \<and> bb_top bb = Finite 20
          \<and> bb_right bb = Finite 18 \<and> bb_bottom bb = Finite 14
          \<and> float_le (bb_bottom bb) (bb_top bb) \<and> float_le (bb_left bb) (bb_right bb))"
proof -
  have sh: "shape (s_raster example_sample) = 3 # 4 # []"
    by (simp add: example_sample_def example_array_def)
  have t: "s_transform example_sample = Affine 2 0 10 0 (- 2) 20"
    by (simp add: example_sample_def)
  have r: "round64 3 = 3" "round64 4 = 4"
    by (simp_all add: round64_numeral)
  have v: "to_float64 8 = Finite 8" "to_float64 (- 6) = Finite (- 6)"
    "to_float64 18 = Finite 18" "to_float64 14 = Finite 14"
    using to_float64_binary64[OF binary64_of_int[of 8]]
      to_float64_binary64[OF binary64_of_int[of "- 6"]]
      to_float64_binary64[OF binary64_of_int[of 18]]
      to_float64_binary64[OF binary64_of_int[of 14]]
    by simp_all
  have c: "binary64 (aff_c (s_transform example_sample))"
    using binary64_of_int[of 10] by (simp add: t)
  have f: "binary64 (aff_f (s_transform example_sample))"
    using binary64_of_int[of 20] by (simp add: t)
  from BandSample_bounds_rectangle[OF sh c f] obtain bb where
    "BandSample_bounds example_sample = Inr bb"
    "bb_left bb = Finite 10" "bb_top bb = Finite 20"
    "bb_right bb = Finite 18" "bb_bottom bb = Finite 14"
    using r v by (auto simp add: t float_add_def float_mul_def float_of_int_def)
  then show ?thesis using sh c f by auto
qed

subsection \<open>Comparison of samples\<close>

text \<open>
  C7, as stated: \<open>s.same(other)\<close> is true whatever \<open>other\<close> is. It is false for two
  samples of different CRS.
\<close>

theorem BandSample_same_not_always_true:
  "BandSample_same example_sample other_sample = Inr False"
  by (simp add: BandSample_same_def example_sample_def other_sample_def)

text \<open>
  C7, amended. For every pair of samples \<open>s\<close> and \<open>other\<close>, \<open>s\<close> having its two axes,
  \<open>s.same(other)\<close> is the comparison of the two CRS alone: the transform, the height and
  the width of \<open>s\<close> are compared with themselves, so those of \<open>other\<close> are not read.
\<close>

theorem BandSample_same_crs_only:
  assumes "shape (s_raster s) = hh # ww # rest"
  shows "BandSample_same s other = Inr (s_crs s = s_crs other)"
  using shape_props[OF assms]
  by (simp add: BandSample_same_def)

theorem BandSample_same_crs_only_witness:
  "shape (s_raster example_sample) = [3, 4]
   \<and> BandSample_same example_sample (other_sample\<lparr>s_crs := s_crs example_sample\<rparr>) = Inr True"
proof -
  have sh: "shape (s_raster example_sample) = 3 # 4 # []"
    by (simp add: example_sample_def example_array_def)
  from BandSample_same_crs_only[OF sh, of "other_sample\<lparr>s_crs := s_crs example_sample\<rparr>"]
  show ?thesis using sh by simp
qed

subsection \<open>The constructor\<close>

lemma BandSample_init_ok:
  "band_shape_guard ev raster = Inr r \<Longrightarrow> is_valid c \<Longrightarrow>
   BandSample_init ev name raster (CrsObj c) t nd =
     Inr \<lparr>s_name = name, s_raster = r, s_nodata = nd, s_transform = t, s_crs = c\<rparr>"
  by (simp add: BandSample_init_def)

lemma BandSample_init_Inr:
  "BandSample_init ev name raster ca t nd = Inr s \<Longrightarrow>
   s_name s = name \<and> s_nodata s = nd \<and> s_transform s = t \<and> is_valid (s_crs s)
   \<and> band_shape_guard ev raster = Inr (s_raster s)"
  by (auto simp add: BandSample_init_def split: sum.splits crs_arg.splits if_splits)

subsection \<open>A window of a band\<close>

text \<open>
  C1. For a single-band \<open>Band\<close> of valid CRS whose raster has width 100, height 100 and
  transform \<open>(1, 0, 0, 0, -1, 0)\<close>, \<open>sample(10, 10, 20, 20)\<close> returns a \<open>BandSample\<close> whose
  transform has \<open>c = 10\<close> and \<open>f = -10\<close> with \<open>a\<close>, \<open>b\<close>, \<open>d\<close>, \<open>e\<close> unchanged, and whose width
  and height properties are 20. The shape guard is the parameter: it is assumed to hand
  on an array of shape \<open>(1, 20, 20)\<close> as one of shape \<open>(20, 20)\<close>.
\<close>

theorem Band_sample_scenario:
  assumes "Band_width b = 100" and "Band_height b = 100"
    and "Band_transform b = Affine 1 0 0 0 (- 1) 0"
    and "Band_count b = 1"
    and "is_valid (Band_crs b)"
    and "\<forall>arr. shape arr = [1, 20, 20] \<longrightarrow>
           (\<exists>r. band_shape_guard ev arr = Inr r \<and> shape r = [20, 20])"
  shows "\<exists>s. Band_sample ev b 10 10 20 20 = Inr s
           \<and> aff_c (s_transform s) = 10 \<and> aff_f (s_transform s) = - 10
           \<and> aff_a (s_transform s) = aff_a (Band_transform b)
           \<and> aff_b (s_transform s) = aff_b (Band_transform b)
           \<and> aff_d (s_transform s) = aff_d (Band_transform b)
           \<and> aff_e (s_transform s) = aff_e (Band_transform b)
           \<and> BandSample_width s = Inr 20 \<and> BandSample_height s = Inr 20"
proof -
  let ?fill = "case Band_nodata b of Some v \<Rightarrow> v | None \<Rightarrow> 0"
  define arr where "arr = read_boundless (b_data b) ((10, 10 + 20), (10, 10 + 20)) ?fill"
  have sh: "shape arr = [1, 20, 20]"
    using assms(4) by (simp add: arr_def read_boundless_def Band_count_def)
  from assms(6) sh obtain r where g: "band_shape_guard ev arr = Inr r" and shr: "shape r = [20, 20]"
    by blast
  have "Band_sample ev b 10 10 20 20 =
          Inr \<lparr>s_name = basename (Band_name b), s_raster = r, s_nodata = ?fill,
               s_transform = Affine 1 0 10 0 (- 1) (- 10), s_crs = Band_crs b\<rparr>"
    using g assms(3,5) by (simp add: Band_sample_def BandSample_init_def arr_def)
  then show ?thesis using shr assms(3)
    by (simp add: BandSample_width_def BandSample_height_def shape_at_def)
qed

theorem Band_sample_scenario_witness:
  "\<exists>s. Band_sample example_env example_band 10 10 20 20 = Inr s
           \<and> s_transform s = Affine 1 0 10 0 (- 1) (- 10)
           \<and> BandSample_width s = Inr 20 \<and> BandSample_height s = Inr 20"
proof -
  have g: "\<forall>arr. shape arr = [1, 20, 20] \<longrightarrow>
           (\<exists>r. band_shape_guard example_env arr = Inr r \<and> shape r = [20, 20])"
    by (simp add: example_env_def plane_guard_def)
  have "\<exists>s. Band_sample example_env example_band 10 10 20 20 = Inr s
           \<and> aff_c (s_transform s) = 10 \<and> aff_f (s_transform s) = - 10
           \<and> aff_a (s_transform s) = aff_a (Band_transform example_band)
           \<and> aff_b (s_transform s) = aff_b (Band_transform example_band)
           \<and> aff_d (s_transform s) = aff_d (Band_transform example_band)
           \<and> aff_e (s_transform s) = aff_e (Band_transform example_band)
           \<and> BandSample_width s = Inr 20 \<and> BandSample_height s = Inr 20"
    by (rule Band_sample_scenario[OF _ _ _ _ _ g])
       (simp_all add: example_band_def example_dataset_def Band_width_def Band_height_def
          Band_transform_def Band_count_def Band_crs_def)
  then obtain s where s: "Band_sample example_env example_band 10 10 20 20 = Inr s"
    "aff_c (s_transform s) = 10" "aff_f (s_transform s) = - 10"
    "aff_a (s_transform s) = 1" "aff_b (s_transform s) = 0"
    "aff_d (s_transform s) = 0" "aff_e (s_transform s) = - 1"
    "BandSample_width s = Inr 20" "BandSample_height s = Inr 20"
    by (auto simp add: example_band_def example_dataset_def Band_transform_def)
  then have "s_transform s = Affine 1 0 10 0 (- 1) (- 10)"
    by (cases "s_transform s") simp
  with s show ?thesis by blast
qed

subsection \<open>What a successful resample has done\<close>

lemma BandSample_resample_Inr:
  assumes "BandSample_resample ev wld s dst_res dst_shape i = (Inr s', wld')"
  shows "s_transform s' = (case dst_res of None \<Rightarrow> s_transform s
           | Some r \<Rightarrow> Affine (snd r) (aff_b (s_transform s)) (aff_c (s_transform s))
                        (aff_d (s_transform s)) (- fst r) (aff_f (s_transform s)))
         \<and> is_valid (s_crs s') \<and> s_crs s' = s_crs s \<and> wld' = log_event Warp wld
         \<and> (\<exists>th tw cells. resample_target s dst_res dst_shape = Inr (th, tw) \<and> 0 \<le> th \<and> 0 \<le> tw
              \<and> band_shape_guard ev \<lparr>shape = [1, nat th, nat tw], dtype = dtype (s_raster s), cell = cells\<rparr>
                  = Inr (s_raster s'))"
  using assms
  by (auto simp add: BandSample_resample_def Let_def np_empty_def BandSample_init_def
      split: sum.splits prod.splits if_splits)

lemma write_band_Inr:
  assumes "write_band ev wld b fp kwargs i tmp = (Inr b', wld')"
  shows "b_path b' = fp \<and> tmp_file b' = tmp
       \<and> (\<exists>px. b_data b' = kwargs\<lparr>ds_pixels := px\<rparr> \<and> files wld' = (files wld)(fp \<mapsto> b_data b'))
       \<and> trace wld' = trace wld @ [Create fp, Warp, Close fp, Open fp]"
  using assms
  by (auto simp add: write_band_def Let_def Band_init_def log_event_def
      split: sum.splits prod.splits if_splits option.splits)

lemma Band_resample_Inr_write:
  assumes "Band_resample ev wld b dst_res fp_in i = (Inr b', wld')"
  defines "fp \<equiv> (case fp_in of
                  None \<Rightarrow> TMP_DIR @ ''/resampled/'' @ random_name ev @ ''/'' @ Band_name b @ ''.tif''
                | Some p \<Rightarrow> p)"
  defines "kwargs \<equiv> (b_data b)\<lparr>ds_transform :=
                 Affine (fst dst_res) (aff_b (Band_transform b)) (aff_c (Band_transform b))
                        (aff_d (Band_transform b)) (- snd dst_res) (aff_f (Band_transform b)),
               ds_width := py_round (of_int (Band_width b) / (fst dst_res / fst (Band_res b))),
               ds_height := py_round (of_int (Band_height b) / (snd dst_res / snd (Band_res b)))\<rparr>"
  shows "fst (Band_res b) \<noteq> 0 \<and> snd (Band_res b) \<noteq> 0 \<and> fst dst_res \<noteq> 0 \<and> snd dst_res \<noteq> 0
       \<and> dirname fp \<noteq> []
       \<and> write_band ev (log_event (Makedirs (dirname fp)) wld) b fp kwargs i (fp_in = None)
           = (Inr b', wld')"
  using assms(1) unfolding fp_def kwargs_def
  by (auto simp add: Band_resample_def Let_def makedirs_def py_truediv_def Band_meta_def
      split: sum.splits if_splits option.splits)

lemma Band_resample_Inr:
  assumes "Band_resample ev wld b dst_res fp_in i = (Inr b', wld')"
  shows "Band_transform b' = Affine (fst dst_res) (aff_b (Band_transform b)) (aff_c (Band_transform b))
                                 (aff_d (Band_transform b)) (- snd dst_res) (aff_f (Band_transform b))
       \<and> Band_width b' = py_round (of_int (Band_width b) / (fst dst_res / fst (Band_res b)))
       \<and> Band_height b' = py_round (of_int (Band_height b) / (snd dst_res / snd (Band_res b)))
       \<and> tmp_file b' = (fp_in = None)
       \<and> b_path b' = (case fp_in of
                  None \<Rightarrow> TMP_DIR @ ''/resampled/'' @ random_name ev @ ''/'' @ Band_name b @ ''.tif''
                | Some p \<Rightarrow> p)
       \<and> files wld' (b_path b') = Some (b_data b')"
proof -
  note w = Band_resample_Inr_write[OF assms]
  from w have "write_band ev (log_event (Makedirs (dirname (case fp_in of
                  None \<Rightarrow> TMP_DIR @ ''/resampled/'' @ random_name ev @ ''/'' @ Band_name b @ ''.tif''
                | Some p \<Rightarrow> p))) wld) b (case fp_in of
                  None \<Rightarrow> TMP_DIR @ ''/resampled/'' @ random_name ev @ ''/'' @ Band_name b @ ''.tif''
                | Some p \<Rightarrow> p) ((b_data b)\<lparr>ds_transform :=
                 Affine (fst dst_res) (aff_b (Band_transform b)) (aff_c (Band_transform b))
                        (aff_d (Band_transform b)) (- snd dst_res) (aff_f (Band_transform b)),
               ds_width := py_round (of_int (Band_width b) / (fst dst_res / fst (Band_res b))),
               ds_height := py_round (of_int (Band_height b) / (snd dst_res / snd (Band_res b)))\<rparr>) i (fp_in = None)
           = (Inr b', wld')" by blast
  from write_band_Inr[OF this] show ?thesis
    by (auto simp add: Band_transform_def Band_width_def Band_height_def)
qed

subsection \<open>Paths\<close>

lemma dirname_nonempty:
  assumes "CHR ''/'' \<in> set p"
  shows "dirname p \<noteq> []"
proof -
  define h where "h = rev (dropWhile (\<lambda>ch. ch \<noteq> CHR ''/'') (rev p))"
  have d: "dirname p = (if \<forall>ch \<in> set h. ch = CHR ''/'' then h
         else rev (dropWhile (\<lambda>ch. ch = CHR ''/'') (rev h)))"
    unfolding dirname_def h_def Let_def ..
  have hne: "h \<noteq> []"
    unfolding h_def using assms by (auto simp add: dropWhile_eq_Nil_conv)
  show ?thesis
  proof (cases "\<forall>ch \<in> set h. ch = CHR ''/''")
    case True
    then have "dirname p = h" unfolding d by (rule if_P)
    with hne show ?thesis by simp
  next
    case False
    then have "dropWhile (\<lambda>ch. ch = CHR ''/'') (rev h) \<noteq> []"
      by (auto simp add: dropWhile_eq_Nil_conv)
    moreover from False have "dirname p = rev (dropWhile (\<lambda>ch. ch = CHR ''/'') (rev h))" unfolding d by (rule if_not_P)
    ultimately show ?thesis by simp
  qed
qed

lemma dirname_tmp: "dirname (TMP_DIR @ rest) \<noteq> []"
  by (rule dirname_nonempty) (simp add: TMP_DIR_def)

subsection \<open>Resampling a band\<close>

lemma write_band_ok:
  assumes "create_ok ev fp kwargs" and "warp_band ev (b_data b) kwargs i = Inr px"
  shows "write_band ev wld b fp kwargs i tmp =
           (Inr \<lparr>b_path = fp, b_data = kwargs\<lparr>ds_pixels := px\<rparr>, tmp_file = tmp\<rparr>,
            \<lparr>files = (files wld)(fp \<mapsto> kwargs\<lparr>ds_pixels := px\<rparr>),
             trace = trace wld @ [Create fp, Warp, Close fp, Open fp]\<rparr>)"
  using assms
  by (simp add: write_band_def Let_def Band_init_def log_event_def)

lemma Band_resample_ok:
  assumes "rx \<noteq> 0" and "ry \<noteq> 0" and "fst (Band_res b) \<noteq> 0" and "snd (Band_res b) \<noteq> 0"
    and "\<forall>p. fp_in = Some p \<longrightarrow> dirname p \<noteq> []"
    and "\<forall>kw. create_ok ev (resample_path ev b fp_in) kw"
    and "\<forall>kw. \<exists>px. warp_band ev (b_data b) kw i = Inr px"
  shows "\<exists>b' wld'. Band_resample ev wld b (rx, ry) fp_in i = (Inr b', wld')"
proof -
  let ?fp = "resample_path ev b fp_in"
  let ?kw = "(Band_meta b)\<lparr>ds_transform :=
                 Affine rx (aff_b (Band_transform b)) (aff_c (Band_transform b))
                        (aff_d (Band_transform b)) (- ry) (aff_f (Band_transform b)),
               ds_width := py_round (of_int (Band_width b) / (rx / fst (Band_res b))),
               ds_height := py_round (of_int (Band_height b) / (ry / snd (Band_res b)))\<rparr>"
  have d: "dirname ?fp \<noteq> []"
    using assms(5) by (cases fp_in) (simp_all add: resample_path_def dirname_tmp)
  from assms(7) obtain px where px: "warp_band ev (b_data b) ?kw i = Inr px" by blast
  have c: "create_ok ev ?fp ?kw" using assms(6) by blast
  note wb = write_band_ok[OF c px, of "log_event (Makedirs (dirname ?fp)) wld" "fp_in = None"]
  have "Band_resample ev wld b (rx, ry) fp_in i =
          write_band ev (log_event (Makedirs (dirname ?fp)) wld) b ?fp ?kw i (fp_in = None)"
    using assms(1-4) d
    by (auto simp add: Band_resample_def Let_def makedirs_def py_truediv_def resample_path_def)
  with wb show ?thesis by simp
qed



subsection \<open>Resampling a sample\<close>

lemma py_int_nonneg: "0 \<le> x \<Longrightarrow> 0 \<le> py_int x"
  by (simp add: py_int_def)

lemma resample_target_res_only:
  assumes "shape (s_raster s) = hh # ww # rest" and "p \<noteq> 0" and "q \<noteq> 0"
  shows "resample_target s (Some (p, q)) None =
           Inr (py_int (of_int (int hh) * fst (BandSample_res s) / p),
                py_int (of_int (int ww) * snd (BandSample_res s) / q))"
  using shape_props[OF assms(1)] assms(2,3)
  by (simp add: resample_target_def py_truediv_def)

lemma resample_target_shape_first:
  assumes "sh = [n0, n1, n2]"
  shows "resample_target s dst_res (Some sh) = Inr (n1, n2)"
  using assms by (cases dst_res) (simp_all add: resample_target_def tuple_at_def)

lemma resample_target_neither:
  assumes "shape (s_raster s) = hh # ww # rest"
  shows "resample_target s None None = Inr (int hh, int ww)"
  using shape_props[OF assms] by (simp add: resample_target_def)

lemma BandSample_resample_ok:
  assumes sh: "shape (s_raster s) = hh # ww # rest" and p: "0 < p" and q: "0 < q"
    and v: "is_valid (s_crs s)"
    and w: "\<forall>dims t. \<exists>cells. warp_array ev (s_raster s) dims (s_transform s) t
                                  (s_crs s) (s_crs s) i = Inr cells"
    and g: "\<forall>arr h w. shape arr = [1, h, w] \<longrightarrow> (\<exists>r. band_shape_guard ev arr = Inr r)"
  shows "\<exists>s' wld'. BandSample_resample ev wld s (Some (p, q)) None i = (Inr s', wld')"
proof -
  let ?t = "Affine q (aff_b (s_transform s)) (aff_c (s_transform s))
                     (aff_d (s_transform s)) (- p) (aff_f (s_transform s))"
  define th where "th = py_int (of_int (int hh) * fst (BandSample_res s) / p)"
  define tw where "tw = py_int (of_int (int ww) * snd (BandSample_res s) / q)"
  have tg: "resample_target s (Some (p, q)) None = Inr (th, tw)"
    unfolding th_def tw_def using sh p q by (intro resample_target_res_only) simp_all
  have "0 \<le> fst (BandSample_res s)" "0 \<le> snd (BandSample_res s)"
    by (simp_all add: BandSample_res_def)
  then have nn: "0 \<le> th" "0 \<le> tw"
    unfolding th_def tw_def using p q by (simp_all add: py_int_nonneg)
  then have e: "np_empty th tw (dtype (s_raster s)) =
      Inr \<lparr>shape = [1, nat th, nat tw], dtype = dtype (s_raster s), cell = (\<lambda>idx. 0)\<rparr>"
    by (simp add: np_empty_def)
  from w obtain cells where c: "warp_array ev (s_raster s) [1, nat th, nat tw] (s_transform s) ?t
                                  (s_crs s) (s_crs s) i = Inr cells" by blast
  from g obtain r where r: "band_shape_guard ev
        \<lparr>shape = [1, nat th, nat tw], dtype = dtype (s_raster s), cell = cells\<rparr> = Inr r"
    by (metis ndarray.select_convs(1))
  have "BandSample_resample ev wld s (Some (p, q)) None i =
          (Inr \<lparr>s_name = s_name s, s_raster = r, s_nodata = s_nodata s,
                s_transform = ?t, s_crs = s_crs s\<rparr>, log_event Warp wld)"
    using tg e c r v by (simp add: BandSample_resample_def Let_def BandSample_init_def)
  then show ?thesis by blast
qed

text \<open>
  C10. For every \<open>BandSample\<close> and every pair \<open>dst_res = (p, q)\<close> of positive resolutions,
  \<open>resample(dst_res=(p, q))\<close> returns a sample whose transform has \<open>a = q\<close> (from
  \<open>dst_res[1]\<close>) and \<open>e = -p\<close> (from \<open>dst_res[0]\<close>), with \<open>b\<close>, \<open>c\<close>, \<open>d\<close>, \<open>f\<close> kept; a \<open>Band\<close>
  returned by \<open>Band.resample\<close> for the same pair has \<open>a = p\<close> and \<open>e = -q\<close>. The sample's
  call returns when its array has its two axes, its CRS is valid, the warp engine
  succeeds and the shape guard accepts an array of shape \<open>(1, h, w)\<close>.
\<close>

theorem resample_axis_order:
  assumes "shape (s_raster s) = hh # ww # rest" and "0 < p" and "0 < q"
    and "is_valid (s_crs s)"
    and "\<forall>dims t. \<exists>cells. warp_array ev (s_raster s) dims (s_transform s) t
                                  (s_crs s) (s_crs s) i = Inr cells"
    and "\<forall>arr h w. shape arr = [1, h, w] \<longrightarrow> (\<exists>r. band_shape_guard ev arr = Inr r)"
  shows "(\<exists>s' wld'. BandSample_resample ev wld s (Some (p, q)) None i = (Inr s', wld')
            \<and> aff_a (s_transform s') = q \<and> aff_e (s_transform s') = - p
            \<and> aff_b (s_transform s') = aff_b (s_transform s)
            \<and> aff_c (s_transform s') = aff_c (s_transform s)
            \<and> aff_d (s_transform s') = aff_d (s_transform s)
            \<and> aff_f (s_transform s') = aff_f (s_transform s))
       \<and> (\<forall>b wb fp b' wb'. Band_resample ev wb b (p, q) fp i = (Inr b', wb')
            \<longrightarrow> aff_a (Band_transform b') = p \<and> aff_e (Band_transform b') = - q)"
proof (intro conjI allI impI)
  from BandSample_resample_ok[OF assms] obtain s' wld' where
    r: "BandSample_resample ev wld s (Some (p, q)) None i = (Inr s', wld')" by blast
  from BandSample_resample_Inr[OF r] have
    "s_transform s' = Affine q (aff_b (s_transform s)) (aff_c (s_transform s))
                        (aff_d (s_transform s)) (- p) (aff_f (s_transform s))" by simp
  with r show "\<exists>s' wld'. BandSample_resample ev wld s (Some (p, q)) None i = (Inr s', wld')
            \<and> aff_a (s_transform s') = q \<and> aff_e (s_transform s') = - p
            \<and> aff_b (s_transform s') = aff_b (s_transform s)
            \<and> aff_c (s_transform s') = aff_c (s_transform s)
            \<and> aff_d (s_transform s') = aff_d (s_transform s)
            \<and> aff_f (s_transform s') = aff_f (s_transform s)"
    by simp
next
  fix b wb fp b' wb'
  assume "Band_resample ev wb b (p, q) fp i = (Inr b', wb')"
  from Band_resample_Inr[OF this]
  show "aff_a (Band_transform b') = p" and "aff_e (Band_transform b') = - q" by simp_all
qed

theorem resample_axis_order_witness:
  "(\<exists>s' wld'. BandSample_resample example_env example_world example_sample (Some (5, 4)) None
                 ''nearest'' = (Inr s', wld')
        \<and> s_transform s' = Affine 4 0 10 0 (- 5) 20)
   \<and> (\<exists>b' wb'. Band_resample example_env example_world example_band (5, 4) None ''nearest''
                 = (Inr b', wb')
        \<and> Band_transform b' = Affine 5 0 0 0 (- 4) 0)"
proof -
  have sh: "shape (s_raster example_sample) = 3 # 4 # []"
    by (simp add: example_sample_def example_array_def)
  have v: "is_valid (s_crs example_sample)" by (simp add: example_sample_def)
  have w: "\<forall>dims t. \<exists>cells. warp_array example_env (s_raster example_sample) dims
              (s_transform example_sample) t (s_crs example_sample) (s_crs example_sample)
              ''nearest'' = Inr cells"
    by (simp add: example_env_def)
  have g: "\<forall>arr h w. shape arr = [1, h, w] \<longrightarrow> (\<exists>r. band_shape_guard example_env arr = Inr r)"
    by (simp add: example_env_def plane_guard_def)
  note th = resample_axis_order[OF sh _ _ v w g, of 5 4 example_world]
  have th': "(\<exists>s' wld'. BandSample_resample example_env example_world example_sample (Some (5, 4)) None
                 ''nearest'' = (Inr s', wld')
            \<and> aff_a (s_transform s') = 4 \<and> aff_e (s_transform s') = - 5
            \<and> aff_b (s_transform s') = aff_b (s_transform example_sample)
            \<and> aff_c (s_transform s') = aff_c (s_transform example_sample)
            \<and> aff_d (s_transform s') = aff_d (s_transform example_sample)
            \<and> aff_f (s_transform s') = aff_f (s_transform example_sample))
       \<and> (\<forall>b wb fp b' wb'. Band_resample example_env wb b (5, 4) fp ''nearest'' = (Inr b', wb')
            \<longrightarrow> aff_a (Band_transform b') = 5 \<and> aff_e (Band_transform b') = - 4)"
    by (rule th) simp_all
  from th' obtain s' wld' where
    s: "BandSample_resample example_env example_world example_sample (Some (5, 4)) None
                 ''nearest'' = (Inr s', wld')"
    "aff_a (s_transform s') = 4" "aff_e (s_transform s') = - 5"
    "aff_b (s_transform s') = 0" "aff_c (s_transform s') = 10"
    "aff_d (s_transform s') = 0" "aff_f (s_transform s') = 20"
    by (auto simp add: example_sample_def)
  then have st: "s_transform s' = Affine 4 0 10 0 (- 5) 20"
    by (cases "s_transform s'") simp
  have "\<exists>b' wb'. Band_resample example_env example_world example_band (5, 4) None ''nearest''
                 = (Inr b', wb')"
    by (rule Band_resample_ok)
       (simp_all add: example_band_def example_dataset_def example_env_def Band_res_def
          rasterio_res_def)
  then obtain b' wb' where
    b: "Band_resample example_env example_world example_band (5, 4) None ''nearest''
                 = (Inr b', wb')" by blast
  from th' b have ae: "aff_a (Band_transform b') = 5" "aff_e (Band_transform b') = - 4"
    by blast+
  from Band_resample_Inr[OF b] have
    "Band_transform b' = Affine 5 0 0 0 (- 4) 0"
    by (simp add: example_band_def example_dataset_def Band_transform_def)
  with s(1) st b show ?thesis by blast
qed

text \<open>
  C5, at a sample of 10 by 10 pixels that are 1 unit wide and 2 units high, resampled to
  \<open>dst_res = (1, 1)\<close>. The claim's shape is \<open>trunc(height * res.y / dst_res.y)\<close> by
  \<open>trunc(width * res.x / dst_res.x)\<close>, which is 20 by 10: twice the rows. The source
  computes \<open>int(height * res[0] / dst_res[0])\<close> by \<open>int(width * res[1] / dst_res[1])\<close> with
  \<open>res = (|a|, |e|)\<close>, which is 10 by 20: twice the columns, under the new transform
  \<open>(1, 0, 0, 0, -1, 0)\<close> whose pixels are as wide as before and half as high.
\<close>

theorem BandSample_resample_shape_axes:
  "resample_target tall_pixel_sample (Some (1, 1)) None = Inr (10, 20)
   \<and> BandSample_height tall_pixel_sample = Inr 10
   \<and> BandSample_width tall_pixel_sample = Inr 10
   \<and> BandSample_res tall_pixel_sample = (1, 2)
   \<and> py_int (10 * snd (BandSample_res tall_pixel_sample) / 1) = 20
   \<and> py_int (10 * fst (BandSample_res tall_pixel_sample) / 1) = 10
   \<and> (\<exists>s' wld'. BandSample_resample example_env example_world tall_pixel_sample
                     (Some (1, 1)) None ''nearest'' = (Inr s', wld')
          \<and> s_transform s' = Affine 1 0 0 0 (- 1) 0
          \<and> BandSample_height s' = Inr 10 \<and> BandSample_width s' = Inr 20)"
proof -
  have t: "resample_target tall_pixel_sample (Some (1, 1)) None = Inr (10, 20)"
    by (simp add: resample_target_def tall_pixel_sample_def example_array_def
      BandSample_height_def BandSample_width_def shape_at_def BandSample_res_def
      py_truediv_def py_int_def)
  have p: "BandSample_height tall_pixel_sample = Inr 10"
    "BandSample_width tall_pixel_sample = Inr 10"
    "BandSample_res tall_pixel_sample = (1, 2)"
    "py_int (10 * snd (BandSample_res tall_pixel_sample) / 1) = 20"
    "py_int (10 * fst (BandSample_res tall_pixel_sample) / 1) = 10"
    by (simp_all add: tall_pixel_sample_def example_array_def
      BandSample_height_def BandSample_width_def shape_at_def BandSample_res_def py_int_def)
  have r: "\<exists>s' wld'. BandSample_resample example_env example_world tall_pixel_sample
                     (Some (1, 1)) None ''nearest'' = (Inr s', wld')
          \<and> s_transform s' = Affine 1 0 0 0 (- 1) 0
          \<and> BandSample_height s' = Inr 10 \<and> BandSample_width s' = Inr 20"
    using t
    by (simp add: BandSample_resample_def Let_def np_empty_def BandSample_init_def
        example_env_def plane_guard_def tall_pixel_sample_def example_array_def
        BandSample_height_def BandSample_width_def shape_at_def)
  from t p r show ?thesis by blast
qed

subsection \<open>Reprojecting a band\<close>

lemma Band_reproject_Inr_write:
  assumes "Band_reproject ev wld b arg fp_in i = (Inr b', wld')"
  shows "\<exists>dst_crs kwargs. Band_resolve_crs ev b arg = Inr dst_crs \<and> is_valid dst_crs
       \<and> dirname (reproject_path ev b dst_crs fp_in) \<noteq> []
       \<and> write_band ev (log_event (Makedirs (dirname (reproject_path ev b dst_crs fp_in))) wld) b
             (reproject_path ev b dst_crs fp_in) kwargs i (fp_in = None)
           = (Inr b', wld')"
  using assms
  by (auto simp add: Band_reproject_def Let_def makedirs_def reproject_path_def
      split: sum.splits if_splits option.splits prod.splits)

lemma Band_reproject_Inr:
  assumes "Band_reproject ev wld b arg fp_in i = (Inr b', wld')"
  shows "tmp_file b' = (fp_in = None)
       \<and> (\<exists>dst_crs. Band_resolve_crs ev b arg = Inr dst_crs \<and> is_valid dst_crs
             \<and> b_path b' = reproject_path ev b dst_crs fp_in)
       \<and> files wld' (b_path b') = Some (b_data b')"
proof -
  from Band_reproject_Inr_write[OF assms] obtain dst_crs kwargs where
    r: "Band_resolve_crs ev b arg = Inr dst_crs" "is_valid dst_crs"
    and w: "write_band ev (log_event (Makedirs (dirname (reproject_path ev b dst_crs fp_in))) wld) b
             (reproject_path ev b dst_crs fp_in) kwargs i (fp_in = None) = (Inr b', wld')"
    by blast
  from write_band_Inr[OF w] r show ?thesis by auto
qed

lemma Band_reproject_ok:
  assumes "Band_resolve_crs ev b arg = Inr dst_crs" and "is_valid dst_crs"
    and "\<forall>p. fp_in = Some p \<longrightarrow> dirname p \<noteq> []"
    and "\<exists>r. calculate_default_transform ev (Band_crs b) dst_crs (Band_width b) (Band_height b)
               (Band_bounds b) = Inr r"
    and "\<forall>kw. create_ok ev (reproject_path ev b dst_crs fp_in) kw"
    and "\<forall>kw. \<exists>px. warp_band ev (b_data b) kw i = Inr px"
  shows "\<exists>b' wld'. Band_reproject ev wld b arg fp_in i = (Inr b', wld')"
proof -
  let ?fp = "reproject_path ev b dst_crs fp_in"
  from assms(4) obtain t w h where
    cd: "calculate_default_transform ev (Band_crs b) dst_crs (Band_width b) (Band_height b)
               (Band_bounds b) = Inr (t, w, h)"
    by (metis prod_cases3)
  let ?kw = "(Band_meta b)\<lparr>ds_crs := dst_crs, ds_transform := t, ds_width := w, ds_height := h\<rparr>"
  have d: "dirname ?fp \<noteq> []"
    using assms(3) by (cases fp_in) (simp_all add: reproject_path_def dirname_tmp)
  from assms(6) obtain px where px: "warp_band ev (b_data b) ?kw i = Inr px" by blast
  have c: "create_ok ev ?fp ?kw" using assms(5) by blast
  note wb = write_band_ok[OF c px, of "log_event (Makedirs (dirname ?fp)) wld" "fp_in = None"]
  have "Band_reproject ev wld b arg fp_in i =
          write_band ev (log_event (Makedirs (dirname ?fp)) wld) b ?fp ?kw i (fp_in = None)"
    using assms(1,2) d cd
    by (auto simp add: Band_reproject_def Let_def makedirs_def reproject_path_def)
  with wb show ?thesis by simp
qed

subsection \<open>The life of a temporary file\<close>

lemma Band_del_kept:
  "\<not> tmp_file b \<Longrightarrow>
     files (Band_del w b) = files w \<and> trace (Band_del w b) = trace w @ [Close (b_path b)]"
  by (simp add: Band_del_def Let_def log_event_def)

lemma Band_del_temporary:
  "tmp_file b \<Longrightarrow> files w (b_path b) = Some ds \<Longrightarrow>
     files (Band_del w b) = (files w)(b_path b := None)
     \<and> trace (Band_del w b) = trace w @ [Close (b_path b), Remove (b_path b)]"
  by (simp add: Band_del_def Let_def log_event_def)

lemma Band_init_Inr:
  "Band_init wld fp = (Inr b, wld') \<Longrightarrow>
     b_path b = fp \<and> \<not> tmp_file b \<and> files wld fp = Some (b_data b)
     \<and> wld' = log_event (Open fp) wld"
  by (auto simp add: Band_init_def split: option.splits)

text \<open>
  C8. A \<open>Band\<close> returned by \<open>resample\<close> or \<open>reproject\<close> with \<open>fp=None\<close> has its flag set and
  its file exists; destroying it, in any world where the file exists, closes the handle
  and then removes the file. A \<open>Band\<close> returned for a path given by the caller, or
  constructed on an existing path, has the flag unset; destroying it closes the handle
  and leaves every file as it is.
\<close>

theorem temporary_file_lifecycle:
  "(Band_resample ev wld b r None i = (Inr b1, wld1) \<longrightarrow>
      tmp_file b1 \<and> files wld1 (b_path b1) \<noteq> None
      \<and> (\<forall>w ds. files w (b_path b1) = Some ds \<longrightarrow>
            files (Band_del w b1) = (files w)(b_path b1 := None)
            \<and> trace (Band_del w b1) = trace w @ [Close (b_path b1), Remove (b_path b1)]))
   \<and> (Band_reproject ev wld b c None i = (Inr b2, wld2) \<longrightarrow>
      tmp_file b2 \<and> files wld2 (b_path b2) \<noteq> None
      \<and> (\<forall>w ds. files w (b_path b2) = Some ds \<longrightarrow>
            files (Band_del w b2) = (files w)(b_path b2 := None)
            \<and> trace (Band_del w b2) = trace w @ [Close (b_path b2), Remove (b_path b2)]))
   \<and> (Band_resample ev wld b r (Some p) i = (Inr b3, wld3) \<longrightarrow>
      \<not> tmp_file b3 \<and> b_path b3 = p
      \<and> (\<forall>w. files (Band_del w b3) = files w \<and> trace (Band_del w b3) = trace w @ [Close p]))
   \<and> (Band_reproject ev wld b c (Some p) i = (Inr b4, wld4) \<longrightarrow>
      \<not> tmp_file b4 \<and> b_path b4 = p
      \<and> (\<forall>w. files (Band_del w b4) = files w \<and> trace (Band_del w b4) = trace w @ [Close p]))
   \<and> (Band_init wld fp = (Inr b5, wld5) \<longrightarrow>
      \<not> tmp_file b5 \<and> b_path b5 = fp
      \<and> (\<forall>w. files (Band_del w b5) = files w \<and> trace (Band_del w b5) = trace w @ [Close fp]))"
proof (intro conjI impI)
  assume a: "Band_resample ev wld b r None i = (Inr b1, wld1)"
  from Band_resample_Inr[OF a] have "tmp_file b1 = (None = (None::string option))"
    and f: "files wld1 (b_path b1) = Some (b_data b1)" by blast+
  then show "tmp_file b1" "files wld1 (b_path b1) \<noteq> None" by simp_all
  then show "\<forall>w ds. files w (b_path b1) = Some ds \<longrightarrow>
            files (Band_del w b1) = (files w)(b_path b1 := None)
            \<and> trace (Band_del w b1) = trace w @ [Close (b_path b1), Remove (b_path b1)]"
    using Band_del_temporary by blast
next
  assume a: "Band_reproject ev wld b c None i = (Inr b2, wld2)"
  from Band_reproject_Inr[OF a] have "tmp_file b2 = (None = (None::string option))"
    and f: "files wld2 (b_path b2) = Some (b_data b2)" by blast+
  then show "tmp_file b2" "files wld2 (b_path b2) \<noteq> None" by simp_all
  then show "\<forall>w ds. files w (b_path b2) = Some ds \<longrightarrow>
            files (Band_del w b2) = (files w)(b_path b2 := None)
            \<and> trace (Band_del w b2) = trace w @ [Close (b_path b2), Remove (b_path b2)]"
    using Band_del_temporary by blast
next
  assume a: "Band_resample ev wld b r (Some p) i = (Inr b3, wld3)"
  from Band_resample_Inr[OF a] have "tmp_file b3 = (Some p = None)"
    and "b_path b3 = (case Some p of
                  None \<Rightarrow> TMP_DIR @ ''/resampled/'' @ random_name ev @ ''/'' @ Band_name b @ ''.tif''
                | Some p \<Rightarrow> p)" by blast+
  then show n: "\<not> tmp_file b3" and pth: "b_path b3 = p" by simp_all
  show "\<forall>w. files (Band_del w b3) = files w \<and> trace (Band_del w b3) = trace w @ [Close p]"
    using Band_del_kept[OF n] pth by simp
next
  assume a: "Band_reproject ev wld b c (Some p) i = (Inr b4, wld4)"
  from Band_reproject_Inr[OF a] have "tmp_file b4 = (Some p = None)"
    and "\<exists>dst_crs. b_path b4 = reproject_path ev b dst_crs (Some p)" by blast+
  then show n: "\<not> tmp_file b4" and pth: "b_path b4 = p"
    by (simp_all add: reproject_path_def)
  show "\<forall>w. files (Band_del w b4) = files w \<and> trace (Band_del w b4) = trace w @ [Close p]"
    using Band_del_kept[OF n] pth by simp
next
  assume a: "Band_init wld fp = (Inr b5, wld5)"
  from Band_init_Inr[OF a] show n: "\<not> tmp_file b5" and pth: "b_path b5 = fp" by blast+
  show "\<forall>w. files (Band_del w b5) = files w \<and> trace (Band_del w b5) = trace w @ [Close fp]"
    using Band_del_kept[OF n] pth by simp
qed

theorem temporary_file_lifecycle_witness:
  "(\<exists>b1 w1. Band_resample example_env example_world example_band (2, 2) None ''nearest''
               = (Inr b1, w1)
        \<and> tmp_file b1 \<and> files w1 (b_path b1) \<noteq> None
        \<and> files (Band_del w1 b1) (b_path b1) = None
        \<and> trace (Band_del w1 b1) = trace w1 @ [Close (b_path b1), Remove (b_path b1)])
   \<and> (\<exists>b2 w2. Band_reproject example_env example_world example_band
                 (CrsObj (CRS ''EPSG:4326'' True)) None ''nearest'' = (Inr b2, w2)
        \<and> tmp_file b2 \<and> files w2 (b_path b2) \<noteq> None
        \<and> files (Band_del w2 b2) (b_path b2) = None
        \<and> trace (Band_del w2 b2) = trace w2 @ [Close (b_path b2), Remove (b_path b2)])
   \<and> (\<exists>b3 w3. Band_resample example_env example_world example_band (2, 2)
                 (Some ''out/scene2.tif'') ''nearest'' = (Inr b3, w3)
        \<and> \<not> tmp_file b3 \<and> files w3 ''out/scene2.tif'' \<noteq> None
        \<and> files (Band_del w3 b3) = files w3
        \<and> trace (Band_del w3 b3) = trace w3 @ [Close ''out/scene2.tif''])
   \<and> (\<exists>b4 w4. Band_reproject example_env example_world example_band
                 (CrsObj (CRS ''EPSG:4326'' True)) (Some ''out/scene2.tif'') ''nearest''
               = (Inr b4, w4)
        \<and> \<not> tmp_file b4 \<and> files w4 ''out/scene2.tif'' \<noteq> None
        \<and> files (Band_del w4 b4) = files w4)
   \<and> (\<exists>b5 w5. Band_init example_world ''data/scene.tif'' = (Inr b5, w5)
        \<and> \<not> tmp_file b5 \<and> files (Band_del w5 b5) = files w5
        \<and> trace (Band_del w5 b5) = trace w5 @ [Close ''data/scene.tif''])"
proof -
  let ?c = "CrsObj (CRS ''EPSG:4326'' True)"
  let ?p = "''out/scene2.tif''"
  have dp: "\<forall>q. Some ?p = Some q \<longrightarrow> dirname q \<noteq> []"
    by (auto intro!: dirname_nonempty)
  have res: "fst (Band_res example_band) \<noteq> 0" "snd (Band_res example_band) \<noteq> 0"
    by (simp_all add: example_band_def example_dataset_def Band_res_def rasterio_res_def)
  have cr: "\<And>fp kw. create_ok example_env fp kw" by (simp add: example_env_def)
  have wp: "\<forall>kw. \<exists>px. warp_band example_env (b_data example_band) kw ''nearest'' = Inr px"
    by (simp add: example_env_def)
  have rc: "Band_resolve_crs example_env example_band ?c = Inr (CRS ''EPSG:4326'' True)"
    by (simp add: Band_resolve_crs_def)
  have cd: "\<exists>r. calculate_default_transform example_env (Band_crs example_band)
              (CRS ''EPSG:4326'' True) (Band_width example_band) (Band_height example_band)
              (Band_bounds example_band) = Inr r"
    by (simp add: example_env_def)
  obtain b1 w1 where e1: "Band_resample example_env example_world example_band (2, 2) None
                            ''nearest'' = (Inr b1, w1)"
    using Band_resample_ok[of 2 2 example_band None example_env "''nearest''" example_world]
      res cr wp by auto
  obtain b2 w2 where e2: "Band_reproject example_env example_world example_band ?c None
                            ''nearest'' = (Inr b2, w2)"
    using Band_reproject_ok[OF rc _ _ cd _ wp, of None example_world] cr by auto
  obtain b3 w3 where e3: "Band_resample example_env example_world example_band (2, 2) (Some ?p)
                            ''nearest'' = (Inr b3, w3)"
    using Band_resample_ok[of 2 2 example_band "Some ?p" example_env "''nearest''" example_world]
      res cr wp dp by auto
  obtain b4 w4 where e4: "Band_reproject example_env example_world example_band ?c (Some ?p)
                            ''nearest'' = (Inr b4, w4)"
    using Band_reproject_ok[OF rc _ dp cd _ wp, of example_world] cr by auto
  obtain b5 w5 where e5: "Band_init example_world ''data/scene.tif'' = (Inr b5, w5)"
    by (simp add: Band_init_def example_world_def)
  note th = temporary_file_lifecycle[where ev = example_env and wld = example_world
      and b = example_band and r = "(2, 2)" and i = "''nearest''" and c = ?c and p = ?p
      and fp = "''data/scene.tif''"
      and ?b1.0 = b1 and ?wld1.0 = w1 and ?b2.0 = b2 and ?wld2.0 = w2
      and ?b3.0 = b3 and ?wld3.0 = w3 and ?b4.0 = b4 and ?wld4.0 = w4
      and ?b5.0 = b5 and ?wld5.0 = w5]
  from th e1 have c1: "tmp_file b1" "files w1 (b_path b1) \<noteq> None"
    "\<forall>w ds. files w (b_path b1) = Some ds \<longrightarrow>
            files (Band_del w b1) = (files w)(b_path b1 := None)
            \<and> trace (Band_del w b1) = trace w @ [Close (b_path b1), Remove (b_path b1)]"
    by blast+
  from c1(2) obtain ds1 where "files w1 (b_path b1) = Some ds1" by blast
  with c1(3) have d1: "files (Band_del w1 b1) = (files w1)(b_path b1 := None)"
    "trace (Band_del w1 b1) = trace w1 @ [Close (b_path b1), Remove (b_path b1)]" by blast+
  from th e2 have c2: "tmp_file b2" "files w2 (b_path b2) \<noteq> None"
    "\<forall>w ds. files w (b_path b2) = Some ds \<longrightarrow>
            files (Band_del w b2) = (files w)(b_path b2 := None)
            \<and> trace (Band_del w b2) = trace w @ [Close (b_path b2), Remove (b_path b2)]"
    by blast+
  from c2(2) obtain ds2 where "files w2 (b_path b2) = Some ds2" by blast
  with c2(3) have d2: "files (Band_del w2 b2) = (files w2)(b_path b2 := None)"
    "trace (Band_del w2 b2) = trace w2 @ [Close (b_path b2), Remove (b_path b2)]" by blast+
  from th e3 have c3: "\<not> tmp_file b3" "b_path b3 = ?p"
    "\<forall>w. files (Band_del w b3) = files w \<and> trace (Band_del w b3) = trace w @ [Close ?p]"
    by blast+
  from Band_resample_Inr[OF e3] c3(2) have f3: "files w3 ?p \<noteq> None" by simp
  from th e4 have c4: "\<not> tmp_file b4" "b_path b4 = ?p"
    "\<forall>w. files (Band_del w b4) = files w \<and> trace (Band_del w b4) = trace w @ [Close ?p]"
    by blast+
  from Band_reproject_Inr[OF e4] c4(2) have f4: "files w4 ?p \<noteq> None" by simp
  from th e5 have c5: "\<not> tmp_file b5"
    "\<forall>w. files (Band_del w b5) = files w
         \<and> trace (Band_del w b5) = trace w @ [Close ''data/scene.tif'']"
    by blast+
  have g1: "\<exists>b1 w1. Band_resample example_env example_world example_band (2, 2) None ''nearest''
               = (Inr b1, w1)
        \<and> tmp_file b1 \<and> files w1 (b_path b1) \<noteq> None
        \<and> files (Band_del w1 b1) (b_path b1) = None
        \<and> trace (Band_del w1 b1) = trace w1 @ [Close (b_path b1), Remove (b_path b1)]"
    using e1 c1(1,2) d1 by (intro exI[of _ b1] exI[of _ w1]) simp
  have g2: "\<exists>b2 w2. Band_reproject example_env example_world example_band ?c None ''nearest''
               = (Inr b2, w2)
        \<and> tmp_file b2 \<and> files w2 (b_path b2) \<noteq> None
        \<and> files (Band_del w2 b2) (b_path b2) = None
        \<and> trace (Band_del w2 b2) = trace w2 @ [Close (b_path b2), Remove (b_path b2)]"
    using e2 c2(1,2) d2 by (intro exI[of _ b2] exI[of _ w2]) simp
  have g3: "\<exists>b3 w3. Band_resample example_env example_world example_band (2, 2)
                 (Some ?p) ''nearest'' = (Inr b3, w3)
        \<and> \<not> tmp_file b3 \<and> files w3 ?p \<noteq> None
        \<and> files (Band_del w3 b3) = files w3
        \<and> trace (Band_del w3 b3) = trace w3 @ [Close ?p]"
    using e3 c3 f3 by (intro exI[of _ b3] exI[of _ w3]) simp
  have g4: "\<exists>b4 w4. Band_reproject example_env example_world example_band ?c (Some ?p) ''nearest''
               = (Inr b4, w4)
        \<and> \<not> tmp_file b4 \<and> files w4 ?p \<noteq> None
        \<and> files (Band_del w4 b4) = files w4"
    using e4 c4 f4 by (intro exI[of _ b4] exI[of _ w4]) simp
  have g5: "\<exists>b5 w5. Band_init example_world ''data/scene.tif'' = (Inr b5, w5)
        \<and> \<not> tmp_file b5 \<and> files (Band_del w5 b5) = files w5
        \<and> trace (Band_del w5 b5) = trace w5 @ [Close ''data/scene.tif'']"
    using e5 c5 by (intro exI[of _ b5] exI[of _ w5]) simp
  from g1 g2 g3 g4 g5 show ?thesis by (intro conjI)
qed

subsection \<open>CRS validation\<close>

lemma BandSample_reproject_Inr:
  assumes "BandSample_reproject ev wld s arg i = (Inr s', wld')"
  shows "is_valid (s_crs s') \<and> BandSample_resolve_crs ev s arg = Inr (s_crs s')
       \<and> wld' = log_event Warp wld"
  using assms
  by (auto simp add: BandSample_reproject_def Let_def np_empty_def BandSample_init_def
      split: sum.splits prod.splits if_splits)

text \<open>
  C9. When the destination CRS that \<open>Band.reproject\<close> or \<open>BandSample.reproject\<close> resolves
  is invalid, the call raises \<open>CRSError\<close> and the world is the one it started in: no
  directory or file was created and the warp engine was not called. The constructor of
  \<open>BandSample\<close> raises \<open>CRSError\<close> for an invalid CRS once the shape guard has accepted the
  array, and every sample that the constructor, \<open>Band.sample\<close>, \<open>BandSample.sample\<close>,
  \<open>resample\<close> or \<open>reproject\<close> returns has a valid CRS.
\<close>

theorem crs_checked_first:
  "(Band_resolve_crs ev b arg = Inr c \<and> \<not> is_valid c
      \<longrightarrow> Band_reproject ev wld b arg fp i = (Inl CRSError, wld))
   \<and> (BandSample_resolve_crs ev s arg = Inr c \<and> \<not> is_valid c
      \<longrightarrow> BandSample_reproject ev wld s arg i = (Inl CRSError, wld))
   \<and> (band_shape_guard ev raster = Inr guarded \<and> \<not> is_valid c
      \<longrightarrow> BandSample_init ev name raster (CrsObj c) t nd = Inl CRSError)
   \<and> (band_shape_guard ev raster = Inr guarded \<and> from_user_input ev u = Inr c \<and> \<not> is_valid c
      \<longrightarrow> BandSample_init ev name raster (UserInput u) t nd = Inl CRSError)
   \<and> (\<forall>s'. BandSample_init ev name raster ca t nd = Inr s' \<longrightarrow> is_valid (s_crs s'))
   \<and> (\<forall>s'. Band_sample ev b y x h w = Inr s' \<longrightarrow> is_valid (s_crs s'))
   \<and> (\<forall>s'. BandSample_sample ev s y x h w = Inr s' \<longrightarrow> is_valid (s_crs s'))
   \<and> (\<forall>s' wld'. BandSample_resample ev wld s dst_res dst_shape i = (Inr s', wld')
          \<longrightarrow> is_valid (s_crs s'))
   \<and> (\<forall>s' wld'. BandSample_reproject ev wld s arg i = (Inr s', wld')
          \<longrightarrow> is_valid (s_crs s'))"
proof (intro conjI impI allI)
  assume "Band_resolve_crs ev b arg = Inr c \<and> \<not> is_valid c"
  then show "Band_reproject ev wld b arg fp i = (Inl CRSError, wld)"
    by (simp add: Band_reproject_def)
next
  assume "BandSample_resolve_crs ev s arg = Inr c \<and> \<not> is_valid c"
  then show "BandSample_reproject ev wld s arg i = (Inl CRSError, wld)"
    by (simp add: BandSample_reproject_def)
next
  assume "band_shape_guard ev raster = Inr guarded \<and> \<not> is_valid c"
  then show "BandSample_init ev name raster (CrsObj c) t nd = Inl CRSError"
    by (simp add: BandSample_init_def)
next
  assume "band_shape_guard ev raster = Inr guarded \<and> from_user_input ev u = Inr c \<and> \<not> is_valid c"
  then show "BandSample_init ev name raster (UserInput u) t nd = Inl CRSError"
    by (simp add: BandSample_init_def)
next
  fix s' assume "BandSample_init ev name raster ca t nd = Inr s'"
  from BandSample_init_Inr[OF this] show "is_valid (s_crs s')" by blast
next
  fix s' assume "Band_sample ev b y x h w = Inr s'"
  then obtain nm arr cr tr ndv where "BandSample_init ev nm arr cr tr ndv = Inr s'"
    by (auto simp add: Band_sample_def Let_def)
  from BandSample_init_Inr[OF this] show "is_valid (s_crs s')" by blast
next
  fix s' assume "BandSample_sample ev s y x h w = Inr s'"
  then obtain nm arr cr tr ndv where "BandSample_init ev nm arr cr tr ndv = Inr s'"
    by (auto simp add: BandSample_sample_def Let_def split: sum.splits)
  from BandSample_init_Inr[OF this] show "is_valid (s_crs s')" by blast
next
  fix s' wld' assume "BandSample_resample ev wld s dst_res dst_shape i = (Inr s', wld')"
  from BandSample_resample_Inr[OF this] show "is_valid (s_crs s')" by blast
next
  fix s' wld' assume "BandSample_reproject ev wld s arg i = (Inr s', wld')"
  from BandSample_reproject_Inr[OF this] show "is_valid (s_crs s')" by blast
qed

theorem crs_checked_first_witness:
  "Band_reproject example_env example_world example_band (UserInput ''bogus'') None ''nearest''
     = (Inl CRSError, example_world)
   \<and> BandSample_reproject example_env example_world example_sample (UserInput ''bogus'')
       ''nearest'' = (Inl CRSError, example_world)
   \<and> BandSample_init example_env ''scene'' (example_array 3 4) (CrsObj (CRS ''bogus'' False))
       (Affine 1 0 0 0 (- 1) 0) 0 = Inl CRSError
   \<and> BandSample_init example_env ''scene'' (example_array 3 4) (UserInput ''bogus'')
       (Affine 1 0 0 0 (- 1) 0) 0 = Inl CRSError
   \<and> (\<exists>s'. BandSample_init example_env ''scene'' (example_array 3 4) (UserInput ''EPSG:4326'')
             (Affine 1 0 0 0 (- 1) 0) 0 = Inr s' \<and> is_valid (s_crs s'))
   \<and> (\<exists>s'. Band_sample example_env example_band 0 0 2 2 = Inr s' \<and> is_valid (s_crs s'))
   \<and> (\<exists>s'. BandSample_sample example_env example_sample 0 0 2 2 = Inr s'
             \<and> is_valid (s_crs s'))
   \<and> (\<exists>s' wld'. BandSample_resample example_env example_world example_sample (Some (1, 1))
             None ''nearest'' = (Inr s', wld') \<and> is_valid (s_crs s'))
   \<and> (\<exists>s' wld'. BandSample_reproject example_env example_world example_sample
             (UserInput ''EPSG:4326'') ''nearest'' = (Inr s', wld') \<and> is_valid (s_crs s'))"
proof -
  let ?bad = "CRS ''bogus'' False"
  let ?t = "Affine 1 0 0 0 (- 1) 0"
  have g: "band_shape_guard example_env (example_array 3 4) = Inr (example_array 3 4)"
    by (simp add: example_env_def plane_guard_def example_array_def)
  have u: "from_user_input example_env ''bogus'' = Inr ?bad"
    by (simp add: example_env_def)
  have rb: "Band_resolve_crs example_env example_band (UserInput ''bogus'') = Inr ?bad"
    by (simp add: Band_resolve_crs_def example_env_def)
  have rs: "BandSample_resolve_crs example_env example_sample (UserInput ''bogus'') = Inr ?bad"
    by (simp add: BandSample_resolve_crs_def example_env_def)
  note th1 = crs_checked_first[where ev = example_env and b = example_band
      and arg = "UserInput ''bogus''" and c = ?bad and wld = example_world and fp = None
      and i = "''nearest''" and s = example_sample and raster = "example_array 3 4"
      and guarded = "example_array 3 4" and name = "''scene''" and t = ?t and nd = 0
      and u = "''bogus''"]
  from th1 rb have c1: "Band_reproject example_env example_world example_band
      (UserInput ''bogus'') None ''nearest'' = (Inl CRSError, example_world)" by simp
  from th1 rs have c2: "BandSample_reproject example_env example_world example_sample
      (UserInput ''bogus'') ''nearest'' = (Inl CRSError, example_world)" by simp
  from th1 g have c3: "BandSample_init example_env ''scene'' (example_array 3 4) (CrsObj ?bad)
       ?t 0 = Inl CRSError" by simp
  from th1 g u have c4: "BandSample_init example_env ''scene'' (example_array 3 4)
       (UserInput ''bogus'') ?t 0 = Inl CRSError" by simp
  note th2 = crs_checked_first[where ev = example_env and b = example_band
      and arg = "UserInput ''EPSG:4326''" and wld = example_world
      and i = "''nearest''" and s = example_sample and raster = "example_array 3 4"
      and name = "''scene''" and t = ?t and nd = 0 and ca = "UserInput ''EPSG:4326''"
      and y = 0 and x = 0 and h = 2 and w = 2 and dst_res = "Some (1, 1)" and dst_shape = None]
  obtain s5 where e5: "BandSample_init example_env ''scene'' (example_array 3 4)
      (UserInput ''EPSG:4326'') ?t 0 = Inr s5"
    using g by (simp add: BandSample_init_def example_env_def)
  obtain s6 where e6: "Band_sample example_env example_band 0 0 2 2 = Inr s6"
    by (simp add: Band_sample_def Let_def read_boundless_def BandSample_init_def
        example_env_def plane_guard_def example_band_def example_dataset_def Band_crs_def)
  obtain s7 where e7: "BandSample_sample example_env example_sample 0 0 2 2 = Inr s7"
    by (simp add: BandSample_sample_def Let_def getitem2_def BandSample_init_def
        example_env_def plane_guard_def example_sample_def example_array_def)
  have "\<exists>s' wld'. BandSample_resample example_env example_world example_sample (Some (1, 1))
             None ''nearest'' = (Inr s', wld')"
    by (rule BandSample_resample_ok[where hh = 3 and ww = 4 and rest = "[]"])
       (simp_all add: example_sample_def example_array_def example_env_def plane_guard_def)
  then obtain s8 w8 where e8: "BandSample_resample example_env example_world example_sample
      (Some (1, 1)) None ''nearest'' = (Inr s8, w8)" by blast
  obtain s9 w9 where e9: "BandSample_reproject example_env example_world example_sample
      (UserInput ''EPSG:4326'') ''nearest'' = (Inr s9, w9)"
    by (simp add: BandSample_reproject_def BandSample_resolve_crs_def Let_def np_empty_def
        BandSample_init_def BandSample_bounds_def BandSample_width_def BandSample_height_def
        shape_at_def example_env_def plane_guard_def example_sample_def example_array_def)
  from th2 e5 have v5: "is_valid (s_crs s5)" by blast
  from th2 e6 have v6: "is_valid (s_crs s6)" by blast
  from th2 e7 have v7: "is_valid (s_crs s7)" by blast
  from th2 e8 have v8: "is_valid (s_crs s8)" by blast
  from th2 e9 have v9: "is_valid (s_crs s9)" by blast
  from c1 c2 c3 c4 e5 v5 e6 v6 e7 v7 e8 v8 e9 v9 show ?thesis by blast
qed

subsection \<open>The grid of windows\<close>

lemma ceil_div_int:
  fixes a b :: int
  assumes b: "0 < b"
  shows "\<lceil>real_of_int a / real_of_int b\<rceil> = (a + b - 1) div b"
proof (rule ceiling_unique)
  define q where "q = (a + b - 1) div b"
  define r where "r = (a + b - 1) mod b"
  have e: "a + b - 1 = b * q + r" unfolding q_def r_def by simp
  have r0: "0 \<le> r" and rb: "r < b" unfolding r_def using b by simp_all
  have lo: "b * (q - 1) < a" using e r0 by (simp add: algebra_simps)
  have hi: "a \<le> b * q" using e rb by (simp add: algebra_simps)
  have rb': "0 < real_of_int b" using b by simp
  from lo have "real_of_int (b * (q - 1)) < real_of_int a" by (simp only: of_int_less_iff)
  then have "real_of_int b * (real_of_int q - 1) < real_of_int a" by simp
  then show "real_of_int ((a + b - 1) div b) - 1 < real_of_int a / real_of_int b"
    using rb' unfolding q_def[symmetric] by (simp add: field_simps)
  from hi have "real_of_int a \<le> real_of_int (b * q)" by (simp only: of_int_le_iff)
  then have "real_of_int a \<le> real_of_int b * real_of_int q" by simp
  then show "real_of_int a / real_of_int b \<le> real_of_int ((a + b - 1) div b)"
    using rb' unfolding q_def[symmetric] by (simp add: field_simps)
qed

lemma range_len_ceiling:
  "0 < step \<Longrightarrow> range_len 0 stop step = nat \<lceil>real_of_int stop / real_of_int step\<rceil>"
  by (simp add: range_len_def ceil_div_int)

lemma div_unique_tile:
  fixes i w :: int and k :: nat
  assumes "0 < w" and "int k * w \<le> i" and "i < int k * w + w"
  shows "i div w = int k"
proof (rule int_div_pos_eq)
  show "i = w * int k + (i - int k * w)" by (simp add: algebra_simps)
  show "0 \<le> i - int k * w" using assms by simp
  show "i - int k * w < w" using assms by simp
qed

lemma div_lt_range_len:
  fixes i w W :: int
  assumes w: "0 < w" and i0: "0 \<le> i" and iW: "i < W"
  shows "nat (i div w) < range_len 0 W w"
proof -
  have "i div w \<le> (W - 1) div w" using iW w by (intro zdiv_mono1) simp_all
  moreover have "(W + w - 1) div w = (W - 1) div w + 1"
  proof -
    have "(W + w - 1) div w = ((W - 1) + w * 1) div w" by (simp add: algebra_simps)
    also have "\<dots> = (W - 1) div w + 1" using w by (subst div_mult_self2) simp_all
    finally show ?thesis .
  qed
  moreover have "0 \<le> i div w" using i0 w by (simp add: pos_imp_zdiv_nonneg_iff)
  ultimately show ?thesis using w by (simp add: range_len_def)
qed

lemma nth_concat_map2:
  assumes "k < length xs * length ys"
  shows "concat (map (\<lambda>x. map (f x) ys) xs) ! k = f (xs ! (k div length ys)) (ys ! (k mod length ys))"
  using assms
proof (induction xs arbitrary: k)
  case Nil
  then show ?case by simp
next
  case (Cons x xs)
  show ?case
  proof (cases "k < length ys")
    case True
    then show ?thesis by (simp add: nth_append)
  next
    case False
    then have ge: "length ys \<le> k" by simp
    from Cons.prems have pos: "0 < length ys" by (cases ys) simp_all
    from Cons.prems ge have lt: "k - length ys < length xs * length ys" by simp
    have d: "k div length ys = Suc ((k - length ys) div length ys)"
      using ge pos by (simp add: le_div_geq)
    have m: "k mod length ys = (k - length ys) mod length ys"
      using ge by (simp add: le_mod_geq)
    from Cons.IH[OF lt] False d m show ?thesis by (simp add: nth_append)
  qed
qed

lemma length_concat_const:
  "(\<And>x. length (g x) = n) \<Longrightarrow> length (concat (map g xs)) = length xs * n"
  by (induction xs) simp_all

lemma length_grid:
  "length (grid W H w h) = range_len 0 W w * range_len 0 H h"
proof -
  have "length (grid W H w h) =
          length (map (\<lambda>k. int k * w) [0 ..< range_len 0 W w]) * range_len 0 H h"
    unfolding grid_def by (rule length_concat_const) simp
  then show ?thesis by simp
qed

lemma nth_grid:
  assumes "k < range_len 0 W w * range_len 0 H h"
  shows "grid W H w h ! k = (int (k div range_len 0 H h) * w, int (k mod range_len 0 H h) * h)"
proof -
  let ?ys = "map (\<lambda>k. int k * h) [0 ..< range_len 0 H h]"
  let ?xs = "map (\<lambda>k. int k * w) [0 ..< range_len 0 W w]"
  have pos: "0 < range_len 0 H h" using assms by (cases "range_len 0 H h") simp_all
  have k: "k < length ?xs * length ?ys" using assms by simp
  have dv: "k div range_len 0 H h < range_len 0 W w"
    using assms pos by (simp add: less_mult_imp_div_less)
  have md: "k mod range_len 0 H h < range_len 0 H h" using pos by simp
  from nth_concat_map2[OF k, of "\<lambda>x y. (x, y)"] dv md show ?thesis
    by (simp add: grid_def)
qed

lemma grid_member:
  "a < range_len 0 W w \<Longrightarrow> b < range_len 0 H h \<Longrightarrow>
     (int a * w, int b * h) \<in> set (grid W H w h)"
  by (force simp add: grid_def image_iff)

lemma grid_memberD:
  "p \<in> set (grid W H w h) \<Longrightarrow>
     \<exists>a b. p = (int a * w, int b * h) \<and> a < range_len 0 W w \<and> b < range_len 0 H h"
  by (force simp add: grid_def image_iff)

lemma grid_covers:
  assumes w: "0 < w" and h: "0 < h"
    and i: "0 \<le> i" "i < W" and j: "0 \<le> j" "j < H"
  shows "\<exists>!p. p \<in> set (grid W H w h) \<and> in_window w h p (i, j)"
proof (rule ex1I[of _ "(int (nat (i div w)) * w, int (nat (j div h)) * h)"])
  have iw: "0 \<le> i div w" using i w by (simp add: pos_imp_zdiv_nonneg_iff)
  have jh: "0 \<le> j div h" using j h by (simp add: pos_imp_zdiv_nonneg_iff)
  have mem: "(int (nat (i div w)) * w, int (nat (j div h)) * h) \<in> set (grid W H w h)"
    using div_lt_range_len[OF w i] div_lt_range_len[OF h j] by (rule grid_member)
  have bi: "i div w * w \<le> i" "i < i div w * w + w"
    using w by (simp_all add: algebra_simps div_mult_self1 pos_mod_bound mult_div_mod_eq
        minus_mod_eq_div_mult[symmetric] minus_mod_eq_mult_div[symmetric])
  have bj: "j div h * h \<le> j" "j < j div h * h + h"
    using h by (simp_all add: algebra_simps
        minus_mod_eq_div_mult[symmetric] minus_mod_eq_mult_div[symmetric])
  show "(int (nat (i div w)) * w, int (nat (j div h)) * h) \<in> set (grid W H w h)
        \<and> in_window w h (int (nat (i div w)) * w, int (nat (j div h)) * h) (i, j)"
    using mem bi bj iw jh by (simp add: in_window_def)
next
  fix p assume p: "p \<in> set (grid W H w h) \<and> in_window w h p (i, j)"
  then obtain a b where ab: "p = (int a * w, int b * h)"
    using grid_memberD by blast
  from p ab have "int a * w \<le> i" "i < int a * w + w" "int b * h \<le> j" "j < int b * h + h"
    by (simp_all add: in_window_def)
  then have "i div w = int a" "j div h = int b"
    using w h by (simp_all add: div_unique_tile)
  with ab show "p = (int (nat (i div w)) * w, int (nat (j div h)) * h)" by simp
qed

lemma grid_disjoint:
  assumes w: "0 < w" and h: "0 < h"
    and p: "p \<in> set (grid W H w h)" and q: "q \<in> set (grid W H w h)"
    and ip: "in_window w h p ij" and iq: "in_window w h q ij"
  shows "p = q"
proof -
  from p obtain a b where ab: "p = (int a * w, int b * h)" using grid_memberD by blast
  from q obtain c d where cd: "q = (int c * w, int d * h)" using grid_memberD by blast
  from ip ab have "fst ij div w = int a" "snd ij div h = int b"
    using w h by (simp_all add: in_window_def div_unique_tile)
  moreover from iq cd have "fst ij div w = int c" "snd ij div h = int d"
    using w h by (simp_all add: in_window_def div_unique_tile)
  ultimately show ?thesis using ab cd by simp
qed

subsection \<open>Tiling\<close>

lemma until_raise_all_Inr:
  "(\<forall>out \<in> set outs. \<exists>v. out = Inr v) \<Longrightarrow> until_raise outs = outs"
  by (induction outs rule: until_raise.induct) simp_all

lemma Band_generate_samples_grid:
  assumes "0 < w" and "0 < h"
  shows "Band_generate_samples ev b w h =
           until_raise (map (\<lambda>p. Band_sample ev b (snd p) (fst p) h w)
                            (grid (Band_width b) (Band_height b) w h))"
  using assms
  by (simp add: Band_generate_samples_def py_range_def grid_def map_concat comp_def)

lemma BandSample_generate_samples_grid:
  assumes "0 < w" and "0 < h" and "shape (s_raster s) = hh # ww # rest"
  shows "BandSample_generate_samples ev s w h =
           until_raise (map (\<lambda>p. BandSample_sample ev s (snd p) (fst p) h w)
                            (grid (int ww) (int hh) w h))"
  using assms(1,2) shape_props[OF assms(3)]
  by (simp add: BandSample_generate_samples_def py_range_def grid_def map_concat comp_def)

lemma count_ceiling:
  assumes "0 < w" and "0 < h" and "0 \<le> W" and "0 \<le> H"
  shows "range_len 0 W w * range_len 0 H h
           = nat (\<lceil>real_of_int W / real_of_int w\<rceil> * \<lceil>real_of_int H / real_of_int h\<rceil>)"
proof -
  have "0 \<le> \<lceil>real_of_int W / real_of_int w\<rceil>"
    using assms by (simp add: ceil_div_int pos_imp_zdiv_nonneg_iff)
  then show ?thesis using assms by (simp add: range_len_ceiling nat_mult_distrib)
qed

lemma Band_sample_ok:
  assumes "Band_count b = 1" and "is_valid (Band_crs b)" and "0 \<le> h" and "0 \<le> w"
    and "\<forall>arr n m. shape arr = [1, n, m] \<longrightarrow> (\<exists>r. band_shape_guard ev arr = Inr r)"
  shows "\<exists>smp. Band_sample ev b y x h w = Inr smp"
proof -
  let ?fill = "case Band_nodata b of Some v \<Rightarrow> v | None \<Rightarrow> 0"
  define arr where "arr = read_boundless (b_data b) ((y, y + h), (x, x + w)) ?fill"
  have sh: "shape arr = [1, nat h, nat w]"
    using assms(1) by (simp add: arr_def read_boundless_def Band_count_def)
  from assms(5) sh obtain r where g: "band_shape_guard ev arr = Inr r" by blast
  show ?thesis using g assms(2) by (simp add: Band_sample_def BandSample_init_def arr_def)
qed

lemma BandSample_sample_ok:
  assumes "shape (s_raster s) = hh # ww # rest" and "is_valid (s_crs s)"
    and "\<forall>arr. length (shape arr) = length (shape (s_raster s))
             \<longrightarrow> (\<exists>r. band_shape_guard ev arr = Inr r)"
  shows "\<exists>smp. BandSample_sample ev s y x h w = Inr smp"
proof -
  obtain sl where gi: "getitem2 (s_raster s) (y, y + h) (x, x + w) = Inr sl"
    and sh: "length (shape sl) = length (shape (s_raster s))"
    using assms(1) by (simp add: getitem2_def)
  from assms(3) sh obtain r where g: "band_shape_guard ev sl = Inr r" by blast
  show ?thesis using gi g assms(2) by (simp add: BandSample_sample_def BandSample_init_def)
qed

lemma generator_of_grid:
  assumes w: "0 < w" and h: "0 < h" and W: "0 \<le> W" and H: "0 \<le> H"
    and eq: "outs = map f (grid W H w h)"
  shows "length outs = nat (\<lceil>real_of_int W / real_of_int w\<rceil> * \<lceil>real_of_int H / real_of_int h\<rceil>)
       \<and> (\<forall>k < length outs.
             outs ! k = f (int (k div nat \<lceil>real_of_int H / real_of_int h\<rceil>) * w,
                           int (k mod nat \<lceil>real_of_int H / real_of_int h\<rceil>) * h))"
proof -
  have len: "length outs = range_len 0 W w * range_len 0 H h"
    using eq by (simp add: length_grid)
  have "\<forall>k < length outs. outs ! k = f (grid W H w h ! k)"
    using eq by simp
  then have nth: "\<forall>k < length outs.
             outs ! k = f (int (k div range_len 0 H h) * w, int (k mod range_len 0 H h) * h)"
    using len nth_grid[of _ W w H h] by simp
  have L: "length outs = nat (\<lceil>real_of_int W / real_of_int w\<rceil> * \<lceil>real_of_int H / real_of_int h\<rceil>)"
    using len count_ceiling[OF w h W H] by (simp only:)
  have N: "\<forall>k < length outs.
             outs ! k = f (int (k div nat \<lceil>real_of_int H / real_of_int h\<rceil>) * w,
                           int (k mod nat \<lceil>real_of_int H / real_of_int h\<rceil>) * h)"
    using nth range_len_ceiling[OF h, of H] by (simp only:)
  from L N show ?thesis by (rule conjI)
qed

text \<open>
  C3. For positive tile sizes \<open>w\<close> and \<open>h\<close>, the nested loops of \<open>generate_samples\<close> request
  the windows of \<open>grid W H w h\<close>, \<open>W\<close> by \<open>H\<close> being the size of the raster:
  \<^item> there are \<open>ceil(W / w) * ceil(H / h)\<close> of them;
  \<^item> the \<open>k\<close>-th is at \<open>x = (k div ceil(H / h)) * w\<close>, \<open>y = (k mod ceil(H / h)) * h\<close>: every \<open>y\<close>
    of a given \<open>x\<close> comes before the next \<open>x\<close>;
  \<^item> every pixel of \<open>[0, W) x [0, H)\<close> lies in exactly one of them, and no two of them
    share a pixel.

  When each \<open>sample\<close> call returns, the generator of a \<open>Band\<close>, and that of a \<open>BandSample\<close>
  whose array has \<open>H\<close> rows and \<open>W\<close> columns, yields exactly the samples of these windows in
  this order: \<open>ceil(W / w) * ceil(H / h)\<close> samples, the \<open>k\<close>-th being
  \<open>sample((k mod ceil(H / h)) * h, (k div ceil(H / h)) * w, h, w)\<close>. The sequence is a function of the object and the tile size: a second call
  yields it again from its first element.
\<close>

theorem generate_samples_tiling:
  assumes w: "0 < w" and h: "0 < h"
  shows
    "(0 \<le> W \<and> 0 \<le> H \<longrightarrow>
        length (grid W H w h) = nat (\<lceil>real_of_int W / real_of_int w\<rceil> * \<lceil>real_of_int H / real_of_int h\<rceil>)
        \<and> (\<forall>k < length (grid W H w h).
              grid W H w h ! k
                = (int (k div nat \<lceil>real_of_int H / real_of_int h\<rceil>) * w,
                   int (k mod nat \<lceil>real_of_int H / real_of_int h\<rceil>) * h))
        \<and> (\<forall>i j. 0 \<le> i \<and> i < W \<and> 0 \<le> j \<and> j < H
              \<longrightarrow> (\<exists>!p. p \<in> set (grid W H w h) \<and> in_window w h p (i, j)))
        \<and> (\<forall>p \<in> set (grid W H w h). \<forall>q \<in> set (grid W H w h). \<forall>ij.
              in_window w h p ij \<and> in_window w h q ij \<longrightarrow> p = q))
     \<and> (0 \<le> Band_width b \<and> 0 \<le> Band_height b
          \<and> (\<forall>p \<in> set (grid (Band_width b) (Band_height b) w h).
                \<exists>smp. Band_sample ev b (snd p) (fst p) h w = Inr smp)
        \<longrightarrow> Band_generate_samples ev b w h
              = map (\<lambda>p. Band_sample ev b (snd p) (fst p) h w)
                    (grid (Band_width b) (Band_height b) w h)
            \<and> length (Band_generate_samples ev b w h)
              = nat (\<lceil>real_of_int (Band_width b) / real_of_int w\<rceil>
                     * \<lceil>real_of_int (Band_height b) / real_of_int h\<rceil>)
            \<and> (\<forall>k < length (Band_generate_samples ev b w h).
                  Band_generate_samples ev b w h ! k
                    = Band_sample ev b
                        (int (k mod nat \<lceil>real_of_int (Band_height b) / real_of_int h\<rceil>) * h)
                        (int (k div nat \<lceil>real_of_int (Band_height b) / real_of_int h\<rceil>) * w)
                        h w))
     \<and> (shape (s_raster s) = hh # ww # rest
          \<and> (\<forall>p \<in> set (grid (int ww) (int hh) w h).
                \<exists>smp. BandSample_sample ev s (snd p) (fst p) h w = Inr smp)
        \<longrightarrow> BandSample_generate_samples ev s w h
              = map (\<lambda>p. BandSample_sample ev s (snd p) (fst p) h w)
                    (grid (int ww) (int hh) w h)
            \<and> length (BandSample_generate_samples ev s w h)
              = nat (\<lceil>real_of_int (int ww) / real_of_int w\<rceil>
                     * \<lceil>real_of_int (int hh) / real_of_int h\<rceil>)
            \<and> (\<forall>k < length (BandSample_generate_samples ev s w h).
                  BandSample_generate_samples ev s w h ! k
                    = BandSample_sample ev s
                        (int (k mod nat \<lceil>real_of_int (int hh) / real_of_int h\<rceil>) * h)
                        (int (k div nat \<lceil>real_of_int (int hh) / real_of_int h\<rceil>) * w)
                        h w))"
proof (intro conjI)
  show "0 \<le> W \<and> 0 \<le> H \<longrightarrow>
        length (grid W H w h) = nat (\<lceil>real_of_int W / real_of_int w\<rceil> * \<lceil>real_of_int H / real_of_int h\<rceil>)
        \<and> (\<forall>k < length (grid W H w h).
              grid W H w h ! k
                = (int (k div nat \<lceil>real_of_int H / real_of_int h\<rceil>) * w,
                   int (k mod nat \<lceil>real_of_int H / real_of_int h\<rceil>) * h))
        \<and> (\<forall>i j. 0 \<le> i \<and> i < W \<and> 0 \<le> j \<and> j < H
              \<longrightarrow> (\<exists>!p. p \<in> set (grid W H w h) \<and> in_window w h p (i, j)))
        \<and> (\<forall>p \<in> set (grid W H w h). \<forall>q \<in> set (grid W H w h). \<forall>ij.
              in_window w h p ij \<and> in_window w h q ij \<longrightarrow> p = q)"
  proof (intro impI conjI)
    assume nn: "0 \<le> W \<and> 0 \<le> H"
    show "length (grid W H w h) = nat (\<lceil>real_of_int W / real_of_int w\<rceil> * \<lceil>real_of_int H / real_of_int h\<rceil>)"
      using nn w h by (simp add: length_grid count_ceiling)
    show "\<forall>k < length (grid W H w h).
              grid W H w h ! k
                = (int (k div nat \<lceil>real_of_int H / real_of_int h\<rceil>) * w,
                   int (k mod nat \<lceil>real_of_int H / real_of_int h\<rceil>) * h)"
      using nth_grid[of _ W w H h] h by (simp add: length_grid range_len_ceiling)
    show "\<forall>i j. 0 \<le> i \<and> i < W \<and> 0 \<le> j \<and> j < H
              \<longrightarrow> (\<exists>!p. p \<in> set (grid W H w h) \<and> in_window w h p (i, j))"
      using grid_covers[OF w h] by blast
    show "\<forall>p \<in> set (grid W H w h). \<forall>q \<in> set (grid W H w h). \<forall>ij.
              in_window w h p ij \<and> in_window w h q ij \<longrightarrow> p = q"
      using grid_disjoint[OF w h] by blast
  qed
next
  show "0 \<le> Band_width b \<and> 0 \<le> Band_height b
          \<and> (\<forall>p \<in> set (grid (Band_width b) (Band_height b) w h).
                \<exists>smp. Band_sample ev b (snd p) (fst p) h w = Inr smp)
        \<longrightarrow> Band_generate_samples ev b w h
              = map (\<lambda>p. Band_sample ev b (snd p) (fst p) h w)
                    (grid (Band_width b) (Band_height b) w h)
            \<and> length (Band_generate_samples ev b w h)
              = nat (\<lceil>real_of_int (Band_width b) / real_of_int w\<rceil>
                     * \<lceil>real_of_int (Band_height b) / real_of_int h\<rceil>)
            \<and> (\<forall>k < length (Band_generate_samples ev b w h).
                  Band_generate_samples ev b w h ! k
                    = Band_sample ev b
                        (int (k mod nat \<lceil>real_of_int (Band_height b) / real_of_int h\<rceil>) * h)
                        (int (k div nat \<lceil>real_of_int (Band_height b) / real_of_int h\<rceil>) * w)
                        h w)"
  proof
    assume a: "0 \<le> Band_width b \<and> 0 \<le> Band_height b
          \<and> (\<forall>p \<in> set (grid (Band_width b) (Band_height b) w h).
                \<exists>smp. Band_sample ev b (snd p) (fst p) h w = Inr smp)"
    have "until_raise (map (\<lambda>p. Band_sample ev b (snd p) (fst p) h w)
                         (grid (Band_width b) (Band_height b) w h))
          = map (\<lambda>p. Band_sample ev b (snd p) (fst p) h w)
                (grid (Band_width b) (Band_height b) w h)"
      by (rule until_raise_all_Inr) (use a in auto)
    then have eq: "Band_generate_samples ev b w h
              = map (\<lambda>p. Band_sample ev b (snd p) (fst p) h w)
                    (grid (Band_width b) (Band_height b) w h)"
      by (simp add: Band_generate_samples_grid[OF w h])
    from a have W: "0 \<le> Band_width b" and H: "0 \<le> Band_height b" by blast+
    from generator_of_grid[OF w h W H eq] eq
    show "Band_generate_samples ev b w h
              = map (\<lambda>p. Band_sample ev b (snd p) (fst p) h w)
                    (grid (Band_width b) (Band_height b) w h)
            \<and> length (Band_generate_samples ev b w h)
              = nat (\<lceil>real_of_int (Band_width b) / real_of_int w\<rceil>
                     * \<lceil>real_of_int (Band_height b) / real_of_int h\<rceil>)
            \<and> (\<forall>k < length (Band_generate_samples ev b w h).
                  Band_generate_samples ev b w h ! k
                    = Band_sample ev b
                        (int (k mod nat \<lceil>real_of_int (Band_height b) / real_of_int h\<rceil>) * h)
                        (int (k div nat \<lceil>real_of_int (Band_height b) / real_of_int h\<rceil>) * w)
                        h w)"
      by simp
  qed
next
  show "shape (s_raster s) = hh # ww # rest
          \<and> (\<forall>p \<in> set (grid (int ww) (int hh) w h).
                \<exists>smp. BandSample_sample ev s (snd p) (fst p) h w = Inr smp)
        \<longrightarrow> BandSample_generate_samples ev s w h
              = map (\<lambda>p. BandSample_sample ev s (snd p) (fst p) h w)
                    (grid (int ww) (int hh) w h)
            \<and> length (BandSample_generate_samples ev s w h)
              = nat (\<lceil>real_of_int (int ww) / real_of_int w\<rceil>
                     * \<lceil>real_of_int (int hh) / real_of_int h\<rceil>)
            \<and> (\<forall>k < length (BandSample_generate_samples ev s w h).
                  BandSample_generate_samples ev s w h ! k
                    = BandSample_sample ev s
                        (int (k mod nat \<lceil>real_of_int (int hh) / real_of_int h\<rceil>) * h)
                        (int (k div nat \<lceil>real_of_int (int hh) / real_of_int h\<rceil>) * w)
                        h w)"
  proof
    assume a: "shape (s_raster s) = hh # ww # rest
          \<and> (\<forall>p \<in> set (grid (int ww) (int hh) w h).
                \<exists>smp. BandSample_sample ev s (snd p) (fst p) h w = Inr smp)"
    then have sh: "shape (s_raster s) = hh # ww # rest" by blast
    have "until_raise (map (\<lambda>p. BandSample_sample ev s (snd p) (fst p) h w)
                         (grid (int ww) (int hh) w h))
          = map (\<lambda>p. BandSample_sample ev s (snd p) (fst p) h w) (grid (int ww) (int hh) w h)"
      by (rule until_raise_all_Inr) (use a in auto)
    then have eq: "BandSample_generate_samples ev s w h
              = map (\<lambda>p. BandSample_sample ev s (snd p) (fst p) h w)
                    (grid (int ww) (int hh) w h)"
      by (simp add: BandSample_generate_samples_grid[OF w h sh])
    have W: "0 \<le> int ww" and H: "0 \<le> int hh" by simp_all
    from generator_of_grid[OF w h W H eq] eq
    show "BandSample_generate_samples ev s w h
              = map (\<lambda>p. BandSample_sample ev s (snd p) (fst p) h w)
                    (grid (int ww) (int hh) w h)
            \<and> length (BandSample_generate_samples ev s w h)
              = nat (\<lceil>real_of_int (int ww) / real_of_int w\<rceil>
                     * \<lceil>real_of_int (int hh) / real_of_int h\<rceil>)
            \<and> (\<forall>k < length (BandSample_generate_samples ev s w h).
                  BandSample_generate_samples ev s w h ! k
                    = BandSample_sample ev s
                        (int (k mod nat \<lceil>real_of_int (int hh) / real_of_int h\<rceil>) * h)
                        (int (k div nat \<lceil>real_of_int (int hh) / real_of_int h\<rceil>) * w)
                        h w)"
      by simp
  qed
qed

theorem generate_samples_tiling_witness:
  "length (Band_generate_samples example_env example_band 40 40) = 9
   \<and> Band_generate_samples example_env example_band 40 40 ! 5
       = Band_sample example_env example_band 80 40 40 40
   \<and> (\<exists>smp. Band_sample example_env example_band 80 40 40 40 = Inr smp)
   \<and> (\<exists>!p. p \<in> set (grid 100 100 40 40) \<and> in_window 40 40 p (99, 0))
   \<and> length (BandSample_generate_samples example_env example_sample 2 2) = 4
   \<and> BandSample_generate_samples example_env example_sample 2 2 ! 1
       = BandSample_sample example_env example_sample 2 0 2 2"
proof -
  have g3: "\<forall>arr n m. shape arr = [1, n, m] \<longrightarrow> (\<exists>r. band_shape_guard example_env arr = Inr r)"
    by (simp add: example_env_def plane_guard_def)
  have ok: "\<And>y x. \<exists>smp. Band_sample example_env example_band y x 40 40 = Inr smp"
    by (rule Band_sample_ok[OF _ _ _ _ g3])
       (simp_all add: example_band_def example_dataset_def Band_count_def Band_crs_def)
  have WH: "Band_width example_band = 100" "Band_height example_band = 100"
    by (simp_all add: example_band_def example_dataset_def Band_width_def Band_height_def)
  have c3: "\<lceil>real_of_int 100 / real_of_int 40\<rceil> = 3" by (simp add: ceil_div_int)
  have w40: "(0::int) < 40" by simp
  note th = generate_samples_tiling[OF w40 w40, of 100 100 example_band example_env]
  from th have cov: "\<exists>!p. p \<in> set (grid 100 100 40 40) \<and> in_window 40 40 p (99, 0)"
    by simp
  from th ok have band: "length (Band_generate_samples example_env example_band 40 40)
              = nat (\<lceil>real_of_int 100 / real_of_int 40\<rceil> * \<lceil>real_of_int 100 / real_of_int 40\<rceil>)"
    "\<forall>k < length (Band_generate_samples example_env example_band 40 40).
        Band_generate_samples example_env example_band 40 40 ! k
          = Band_sample example_env example_band
              (int (k mod nat \<lceil>real_of_int 100 / real_of_int 40\<rceil>) * 40)
              (int (k div nat \<lceil>real_of_int 100 / real_of_int 40\<rceil>) * 40) 40 40"
    by (simp_all add: WH)
  from band(1) have b1: "length (Band_generate_samples example_env example_band 40 40) = 9"
    using c3 by simp
  from band(2) b1 have b2: "Band_generate_samples example_env example_band 40 40 ! 5
       = Band_sample example_env example_band 80 40 40 40"
    using c3 by simp
  have sh: "shape (s_raster example_sample) = 3 # 4 # []"
    by (simp add: example_sample_def example_array_def)
  have g2: "\<forall>arr. length (shape arr) = length (shape (s_raster example_sample))
             \<longrightarrow> (\<exists>r. band_shape_guard example_env arr = Inr r)"
  proof (intro allI impI)
    fix arr :: ndarray assume "length (shape arr) = length (shape (s_raster example_sample))"
    then have "length (shape arr) = 2" using sh by simp
    then obtain n m where "shape arr = [n, m]"
      by (cases "shape arr"; cases "tl (shape arr)") auto
    then show "\<exists>r. band_shape_guard example_env arr = Inr r"
      by (simp add: example_env_def plane_guard_def)
  qed
  have oks: "\<And>y x. \<exists>smp. BandSample_sample example_env example_sample y x 2 2 = Inr smp"
    by (rule BandSample_sample_ok[OF sh _ g2]) (simp add: example_sample_def)
  have c2: "\<lceil>real_of_int 4 / real_of_int 2\<rceil> = 2" "\<lceil>real_of_int 3 / real_of_int 2\<rceil> = 2"
    by (simp_all add: ceil_div_int)
  have w2: "(0::int) < 2" by simp
  note ts = generate_samples_tiling[OF w2 w2, of _ _ _ example_env example_sample 3 4 "[]"]
  from ts sh oks have smp: "length (BandSample_generate_samples example_env example_sample 2 2)
              = nat (\<lceil>real_of_int 4 / real_of_int 2\<rceil> * \<lceil>real_of_int 3 / real_of_int 2\<rceil>)"
    "\<forall>k < length (BandSample_generate_samples example_env example_sample 2 2).
        BandSample_generate_samples example_env example_sample 2 2 ! k
          = BandSample_sample example_env example_sample
              (int (k mod nat \<lceil>real_of_int 3 / real_of_int 2\<rceil>) * 2)
              (int (k div nat \<lceil>real_of_int 3 / real_of_int 2\<rceil>) * 2) 2 2"
    by simp_all
  from smp(1) have s1: "length (BandSample_generate_samples example_env example_sample 2 2) = 4"
    using c2 by simp
  from smp(2) s1 have s2: "BandSample_generate_samples example_env example_sample 2 2 ! 1
       = BandSample_sample example_env example_sample 2 0 2 2"
    using c2 by simp
  from b1 b2 ok cov s1 s2 show ?thesis by blast
qed

subsection \<open>A window that passes the edge of the raster\<close>

lemma slice_index_nonneg: "0 \<le> i \<Longrightarrow> slice_index n i = min i n"
  by (simp add: slice_index_def)

lemma slice_len_nonneg:
  "0 \<le> y \<Longrightarrow> 0 \<le> h \<Longrightarrow>
     slice_len n y (y + h) = nat (min (y + h) (int n) - min y (int n))"
  by (simp add: slice_len_def slice_index_nonneg)

lemma slice_len_le:
  assumes "0 \<le> y" and "0 \<le> h"
  shows "int (slice_len n y (y + h)) \<le> h"
  using assms by (simp add: slice_len_nonneg min_def)

lemma slice_len_less:
  assumes "0 \<le> y" and "0 < h" and "int n < y + h"
  shows "int (slice_len n y (y + h)) < h"
  using assms by (simp add: slice_len_nonneg min_def)

text \<open>
  The array that \<open>Band.sample\<close> reads from a single-band \<open>Band\<close> for a window of \<open>h\<close> rows
  and \<open>w\<close> columns has the shape \<open>(1, h, w)\<close>; a cell of the window that lies on the raster
  is the raster's pixel and every other cell is the band's nodata, or 0 when nodata is
  unset. The sample is what the constructor makes of this array.
\<close>

lemma Band_sample_boundless:
  assumes "Band_count b = 1" and "0 \<le> h" and "0 \<le> w"
    and "arr = read_boundless (b_data b) ((y, y + h), (x, x + w))
                 (case Band_nodata b of Some v \<Rightarrow> v | None \<Rightarrow> 0)"
  shows "shape arr = [1, nat h, nat w]"
    and "cell arr [0, i, j] =
           (if 0 \<le> y + int i \<and> y + int i < Band_height b
               \<and> 0 \<le> x + int j \<and> x + int j < Band_width b
            then ds_pixels (b_data b) 0 (y + int i) (x + int j)
            else (case Band_nodata b of Some v \<Rightarrow> v | None \<Rightarrow> 0))"
    and "Band_sample ev b y x h w =
           BandSample_init ev (basename (Band_name b)) arr (CrsObj (Band_crs b))
             (Affine (aff_a (Band_transform b)) (aff_b (Band_transform b))
                     (aff_c (Band_transform b) + of_int x * aff_a (Band_transform b))
                     (aff_d (Band_transform b)) (aff_e (Band_transform b))
                     (aff_f (Band_transform b) + of_int y * aff_e (Band_transform b)))
             (case Band_nodata b of Some v \<Rightarrow> v | None \<Rightarrow> 0)"
  using assms
  by (simp_all add: read_boundless_def Let_def Band_count_def Band_height_def Band_width_def
      Band_sample_def)

text \<open>
  For \<open>y \<ge> 0\<close> and \<open>x \<ge> 0\<close>, the array that \<open>BandSample.sample\<close> hands to the constructor
  is the slice \<open>[y:y+h, x:x+w]\<close> of its array: the cells from row \<open>y\<close> and column \<open>x\<close> on,
  copied and not filled, in \<open>min(H, y+h) - min(H, y)\<close> rows and \<open>min(W, x+w) - min(W, x)\<close>
  columns; this is never more than requested and, when the window passes the bottom or
  the right edge, fewer rows or fewer columns.
\<close>

lemma BandSample_sample_truncates:
  assumes h: "0 < h" and w: "0 < w"
    and shp: "shape (s_raster s) = hh # ww # rest" and y: "0 \<le> y" and x: "0 \<le> x"
  shows "\<exists>sl. getitem2 (s_raster s) (y, y + h) (x, x + w) = Inr sl
           \<and> shape sl = nat (min (y + h) (int hh) - min y (int hh))
                        # nat (min (x + w) (int ww) - min x (int ww)) # rest
           \<and> (\<forall>i j ks. cell sl (i # j # ks) =
                 cell (s_raster s) ((nat (min y (int hh)) + i) # (nat (min x (int ww)) + j) # ks))
           \<and> BandSample_sample ev s y x h w =
               BandSample_init ev (s_name s) sl (CrsObj (s_crs s))
                 (Affine (aff_a (s_transform s)) (aff_b (s_transform s))
                         (aff_c (s_transform s) + of_int x * aff_a (s_transform s))
                         (aff_d (s_transform s)) (aff_e (s_transform s))
                         (aff_f (s_transform s) + of_int y * aff_e (s_transform s)))
                 (s_nodata s)
           \<and> int (shape sl ! 0) \<le> h \<and> int (shape sl ! 1) \<le> w
           \<and> (\<not> window_inside (int hh) (int ww) y x h w
                \<longrightarrow> int (shape sl ! 0) < h \<or> int (shape sl ! 1) < w)"
proof -
  have h0: "0 \<le> h" and w0: "0 \<le> w" using h w by simp_all
  have "\<exists>sl. getitem2 (s_raster s) (y, y + h) (x, x + w) = Inr sl
           \<and> shape sl = slice_len hh y (y + h) # slice_len ww x (x + w) # rest
           \<and> (\<forall>i j ks. cell sl (i # j # ks) =
                 cell (s_raster s) ((slice_start hh y + i) # (slice_start ww x + j) # ks))"
    using shp by (simp add: getitem2_def)
  then obtain sl where gi: "getitem2 (s_raster s) (y, y + h) (x, x + w) = Inr sl"
    and sh0: "shape sl = slice_len hh y (y + h) # slice_len ww x (x + w) # rest"
    and ce0: "\<forall>i j ks. cell sl (i # j # ks) =
                 cell (s_raster s) ((slice_start hh y + i) # (slice_start ww x + j) # ks)"
    by blast
  have sh: "shape sl = nat (min (y + h) (int hh) - min y (int hh))
                        # nat (min (x + w) (int ww) - min x (int ww)) # rest"
    using sh0 y x h0 w0 by (simp add: slice_len_nonneg)
  have ce: "\<forall>i j ks. cell sl (i # j # ks) =
                 cell (s_raster s) ((nat (min y (int hh)) + i) # (nat (min x (int ww)) + j) # ks)"
    using ce0 y x by (simp add: slice_start_def slice_index_nonneg)
  have sm: "BandSample_sample ev s y x h w =
               BandSample_init ev (s_name s) sl (CrsObj (s_crs s))
                 (Affine (aff_a (s_transform s)) (aff_b (s_transform s))
                         (aff_c (s_transform s) + of_int x * aff_a (s_transform s))
                         (aff_d (s_transform s)) (aff_e (s_transform s))
                         (aff_f (s_transform s) + of_int y * aff_e (s_transform s)))
                 (s_nodata s)"
    using gi by (simp add: BandSample_sample_def Let_def)
  have le: "int (shape sl ! 0) \<le> h" "int (shape sl ! 1) \<le> w"
    using slice_len_le[OF y h0, of hh] slice_len_le[OF x w0, of ww] sh0 by simp_all
  have lt: "\<not> window_inside (int hh) (int ww) y x h w
                \<longrightarrow> int (shape sl ! 0) < h \<or> int (shape sl ! 1) < w"
  proof
    assume "\<not> window_inside (int hh) (int ww) y x h w"
    then have "int hh < y + h \<or> int ww < x + w"
      using y x by (auto simp add: window_inside_def)
    then show "int (shape sl ! 0) < h \<or> int (shape sl ! 1) < w"
      using slice_len_less[OF y h, of hh] slice_len_less[OF x w, of ww] sh0 by auto
  qed
  from gi sh ce sm le lt show ?thesis
    by (intro exI[of _ sl] conjI)
qed

text \<open>
  C2. For a request that is not within the raster, \<open>BandSample.sample\<close> is said to return
  a truncated slice, smaller than requested. On the sample of 10 by 10 pixels with the
  transform \<open>(1, 0, 0, 0, -1, 0)\<close>, \<open>sample(-5, 0, 2, 2)\<close> asks for two rows that lie above
  the raster. The slice \<open>[-5:-3, 0:2]\<close> counts the rows from the end: the sample that
  comes back has the full 2 by 2 size and holds the pixels of rows 5 and 6, under the
  transform \<open>(1, 0, 0, 0, -1, 5)\<close> of the rows requested, five rows above the raster.
  \<open>Band.sample\<close> on a file of the same pixels returns, for the same request and under the
  same transform, 2 by 2 cells of fill.
\<close>

theorem BandSample_sample_negative_offset:
  "\<not> window_inside 10 10 (- 5) 0 2 2
   \<and> (\<exists>sl. getitem2 (s_raster ramp_sample) (- 5, - 5 + 2) (0, 0 + 2) = Inr sl
          \<and> shape sl = [2, 2] \<and> cell sl [0, 0] = 50 \<and> cell sl [1, 1] = 61)
   \<and> (\<exists>s'. BandSample_sample example_env ramp_sample (- 5) 0 2 2 = Inr s'
          \<and> BandSample_height s' = Inr 2 \<and> BandSample_width s' = Inr 2
          \<and> cell (s_raster s') [0, 0] = 50 \<and> cell (s_raster s') [0, 1] = 51
          \<and> cell (s_raster s') [1, 0] = 60 \<and> cell (s_raster s') [1, 1] = 61
          \<and> cell (s_raster ramp_sample) [5, 0] = 50 \<and> cell (s_raster ramp_sample) [6, 1] = 61
          \<and> s_transform s' = Affine 1 0 0 0 (- 1) 5)
   \<and> (\<exists>s''. Band_sample example_env ramp_band (- 5) 0 2 2 = Inr s''
          \<and> BandSample_height s'' = Inr 2 \<and> BandSample_width s'' = Inr 2
          \<and> cell (s_raster s'') [0, 0] = 0 \<and> cell (s_raster s'') [0, 1] = 0
          \<and> cell (s_raster s'') [1, 0] = 0 \<and> cell (s_raster s'') [1, 1] = 0
          \<and> s_transform s'' = Affine 1 0 0 0 (- 1) 5)"
proof -
  have a: "\<not> window_inside 10 10 (- 5) 0 2 2"
    by (simp add: window_inside_def)
  have g: "\<exists>sl. getitem2 (s_raster ramp_sample) (- 5, - 5 + 2) (0, 0 + 2) = Inr sl
          \<and> shape sl = [2, 2] \<and> cell sl [0, 0] = 50 \<and> cell sl [1, 1] = 61"
    by (simp add: getitem2_def ramp_sample_def slice_len_def slice_start_def slice_index_def)
  have b: "\<exists>s'. BandSample_sample example_env ramp_sample (- 5) 0 2 2 = Inr s'
          \<and> BandSample_height s' = Inr 2 \<and> BandSample_width s' = Inr 2
          \<and> cell (s_raster s') [0, 0] = 50 \<and> cell (s_raster s') [0, 1] = 51
          \<and> cell (s_raster s') [1, 0] = 60 \<and> cell (s_raster s') [1, 1] = 61
          \<and> cell (s_raster ramp_sample) [5, 0] = 50 \<and> cell (s_raster ramp_sample) [6, 1] = 61
          \<and> s_transform s' = Affine 1 0 0 0 (- 1) 5"
    by (simp add: getitem2_def ramp_sample_def slice_len_def slice_start_def
        slice_index_def BandSample_sample_def Let_def BandSample_init_def example_env_def
        plane_guard_def BandSample_height_def BandSample_width_def shape_at_def)
  have c: "\<exists>s''. Band_sample example_env ramp_band (- 5) 0 2 2 = Inr s''
          \<and> BandSample_height s'' = Inr 2 \<and> BandSample_width s'' = Inr 2
          \<and> cell (s_raster s'') [0, 0] = 0 \<and> cell (s_raster s'') [0, 1] = 0
          \<and> cell (s_raster s'') [1, 0] = 0 \<and> cell (s_raster s'') [1, 1] = 0
          \<and> s_transform s'' = Affine 1 0 0 0 (- 1) 5"
    by (simp add: Band_sample_def read_boundless_def Let_def BandSample_init_def example_env_def
        plane_guard_def BandSample_height_def BandSample_width_def shape_at_def
        ramp_band_def ramp_dataset_def Band_transform_def Band_crs_def Band_nodata_def
        Band_name_def)
  from a g b c show ?thesis by (intro conjI)
qed

end
